theory Spec2Isabelle
  imports Main "HOL-Library.List_Lexorder" "HOL-Library.Char_ord"
begin

section \<open>Darker: the reconciliation loop of \<open>darker/__main__.py\<close>\<close>

text \<open>
  The module \<open>darker/__main__.py\<close> holds \<open>format_edited_parts\<close> (a generator which
  reformats the edited parts of each changed file, retrying with a wider \<open>git diff\<close>
  context when the result does not parse to the same syntax tree), \<open>post_gh_suggestion\<close>
  and \<open>main\<close> (which consumes the generator and writes files, posts suggestions or only
  reports).

  The functions are embedded below. What they call from other modules
  (\<open>darker.git\<close>, \<open>darker.black_diff\<close>, \<open>darker.diff\<close>, \<open>darker.chooser\<close>,
  \<open>darker.verification\<close>, \<open>darker.import_sorting\<close>, \<open>darker.linting\<close>,
  \<open>darker.utils\<close>), the file system and the network are parameters: the record
  \<open>collaborators\<close> gives, for every call, what it returns or which exception it raises.
  Every call the code makes is logged as an \<open>event\<close>, in the order of the calls, so that
  statements on which collaborator is invoked, with what and when, are statements on the
  list of events. Logging and printing do not change the control flow and are left out.

  The options for Black are one dictionary, built in \<open>main\<close> and passed by reference to
  every call of \<open>run_black\<close>, for every margin and every file. The callee can change it,
  so the dictionary is a state that is threaded through the calls: \<open>run_black\<close> returns
  the dictionary as it leaves it, and each later read or call sees that.
\<close>

subsection \<open>Data\<close>

text \<open>A \<open>pathlib.Path\<close> is the list of its parts; Python orders paths by their parts.\<close>

type_synonym path = "string list"
type_synonym content = string
type_synonym textline = string

text \<open>An opcode is the 5-tuple \<open>(action, x, y, z, t)\<close> that \<open>post_gh_suggestion\<close> unpacks.\<close>

type_synonym opcode = "string \<times> int \<times> int \<times> int \<times> int"

text \<open>
  The exceptions that reach the code. \<open>NotEquivalentError\<close> is the only one that
  \<open>format_edited_parts\<close> catches; \<open>ValueError\<close> carries the unknown action of an
  opcode.
\<close>

datatype error =
    NotEquivalentError
  | SystemExit int
  | UnboundLocalError
  | ModuleNotFoundError
  | ValueError string
  | OtherError string

text \<open>\<open>BlackArgs\<close> is a dictionary with optional keys, filled in by \<open>main\<close>.\<close>

datatype pyval = PyStr string | PyInt int | PyBool bool

type_synonym black_args = "(string \<times> pyval) list"

text \<open>What the generator yields: \<open>(src, worktree_content, result_str, chosen_lines)\<close>.\<close>

type_synonym yielded = "path \<times> content \<times> content \<times> textline list"

text \<open>
  A change that \<open>post_gh_suggestion\<close> collects: \<open>(path, start, end)\<close> and the opcode from
  which the text of the suggestion is rendered.
\<close>

type_synonym change = "string \<times> int \<times> int \<times> opcode"

text \<open>
  One event for every call to a collaborator, with the arguments of the call; for
  \<open>run_black\<close> the dictionary is logged as the call receives it. The type of chunks is
  declared in \<open>darker.diff\<close>; the code only passes chunks on, so it is a type parameter.
\<close>

datatype 'chunk event =
    GetCommonRoot "path list"
  | GitGetModifiedFiles "path list" string path
  | ReadText path
  | ApplyIsort content path "pyval option" "pyval option"
  | RevisionVsLines path "textline list" nat
  | RunBlack path content black_args
  | DiffAndGetOpcodes "textline list" "textline list"
  | OpcodesToChunks "opcode list" "textline list" "textline list"
  | ChooseLines "'chunk list" "int list"
  | Joinlines "textline list"
  | VerifyAstUnchanged content content "'chunk list" "int list"
  | Yield path content content "textline list"
  | RunLinter string path "path list" string
  | RelativeToCwd path
  | PostGhSuggestion string content "textline list"
  | ImportRequests
  | ReadGithubEvent
  | RequestsGet string
  | RequestsDelete string
  | RequestsPost string string string "change list"
  | ModifyFile path content

record 'chunk collaborators =
  get_common_root :: "path list \<Rightarrow> error + path"
  git_get_modified_files :: "path list \<Rightarrow> string \<Rightarrow> path \<Rightarrow> error + path list"
  read_text :: "path \<Rightarrow> error + content"
  apply_isort :: "content \<Rightarrow> path \<Rightarrow> pyval option \<Rightarrow> pyval option \<Rightarrow> error + content"
  splitlines :: "content \<Rightarrow> textline list"
  revision_vs_lines :: "path \<Rightarrow> string \<Rightarrow> path \<Rightarrow> textline list \<Rightarrow> nat \<Rightarrow> error + int list"
  run_black :: "path \<Rightarrow> content \<Rightarrow> black_args \<Rightarrow> (error + textline list) \<times> black_args"
  diff_and_get_opcodes :: "textline list \<Rightarrow> textline list \<Rightarrow> opcode list"
  opcodes_to_chunks :: "opcode list \<Rightarrow> textline list \<Rightarrow> textline list \<Rightarrow> 'chunk list"
  choose_lines :: "'chunk list \<Rightarrow> int list \<Rightarrow> textline list"
  joinlines :: "textline list \<Rightarrow> content"
  verify_ast_unchanged :: "content \<Rightarrow> content \<Rightarrow> 'chunk list \<Rightarrow> int list \<Rightarrow> error option"
  run_linter :: "string \<Rightarrow> path \<Rightarrow> path list \<Rightarrow> string \<Rightarrow> error option"
  isort_available :: bool
  relative_to_cwd :: "path \<Rightarrow> error + string"
  requests_available :: bool
  github_event :: "(string \<times> string) option"
  requests_get :: "string \<Rightarrow> error + string list"
  requests_delete :: "string \<Rightarrow> error option"
  requests_post :: "string \<Rightarrow> string \<Rightarrow> string \<Rightarrow> change list \<Rightarrow> error option"
  write_text :: "path \<Rightarrow> content \<Rightarrow> error option"

text \<open>
  In the record: a function that raises returns \<open>Inl\<close> (or \<open>Some\<close>) of the exception;
  \<open>run_black\<close> returns, with its result or exception, the dictionary of options as the
  call leaves it; \<open>revision_vs_lines\<close> takes first the \<open>git_root\<close> and the \<open>revision\<close> that
  the constructor of \<open>EditedLinenumsDiffer\<close> received; a Python set of paths is the list
  of its elements; \<open>isort_available\<close> is the truth value of the imported \<open>isort\<close> module and
  \<open>requests_available\<close> says whether \<open>import requests\<close> succeeds; \<open>github_event\<close> is
  \<open>(comment_url, commit_id)\<close> when the file named by \<open>GITHUB_EVENT_PATH\<close> can be read and
  holds them; \<open>requests_get\<close> gives the \<open>url\<close> of each review comment of the response (or
  the exception of the request or of reading a comment), \<open>requests_delete\<close> and
  \<open>requests_post\<close> the exception of the request, if any (\<open>requests_post\<close> takes the URL,
  the commit, the event and the changes of the review).
\<close>

subsection \<open>The retry loop of one file\<close>

text \<open>
  The local variables of one pass of the outer loop that are set before the inner loop
  and never assigned again. The dictionary of options is not among them: it is the
  state \<open>b\<close> below.
\<close>

record file_vars =
  git_root :: path
  revision :: string
  enable_isort :: bool
  path_in_repo :: path
  src :: path
  worktree_content :: content
  edited_content :: content

definition edited_lines :: "'c collaborators \<Rightarrow> file_vars \<Rightarrow> textline list" where
  "edited_lines env v = splitlines env (edited_content v)"

definition max_context_lines :: "'c collaborators \<Rightarrow> file_vars \<Rightarrow> nat" where
  "max_context_lines env v = length (edited_lines env v)"

definition opcodes :: "'c collaborators \<Rightarrow> file_vars \<Rightarrow> textline list \<Rightarrow> opcode list" where
  "opcodes env v formatted = diff_and_get_opcodes env (edited_lines env v) formatted"

definition black_chunks :: "'c collaborators \<Rightarrow> file_vars \<Rightarrow> textline list \<Rightarrow> 'c list" where
  "black_chunks env v formatted =
     opcodes_to_chunks env (opcodes env v formatted) (edited_lines env v) formatted"

definition chosen_lines ::
  "'c collaborators \<Rightarrow> file_vars \<Rightarrow> textline list \<Rightarrow> int list \<Rightarrow> textline list" where
  "chosen_lines env v formatted edited_linenums =
     choose_lines env (black_chunks env v formatted) edited_linenums"

definition result_str ::
  "'c collaborators \<Rightarrow> file_vars \<Rightarrow> textline list \<Rightarrow> int list \<Rightarrow> content" where
  "result_str env v formatted edited_linenums =
     joinlines env (chosen_lines env v formatted edited_linenums)"

text \<open>
  The calls of one iteration that runs up to the verification, in their order; \<open>b\<close> is
  the dictionary of options as the iteration finds it.
\<close>

definition iteration_events ::
  "'c collaborators \<Rightarrow> file_vars \<Rightarrow> black_args \<Rightarrow> nat \<Rightarrow> int list \<Rightarrow> textline list
     \<Rightarrow> 'c event list" where
  "iteration_events env v b context_lines edited_linenums formatted =
     [RevisionVsLines (path_in_repo v) (edited_lines env v) context_lines,
      RunBlack (src v) (edited_content v) b,
      DiffAndGetOpcodes (edited_lines env v) formatted,
      OpcodesToChunks (opcodes env v formatted) (edited_lines env v) formatted,
      ChooseLines (black_chunks env v formatted) edited_linenums,
      Joinlines (chosen_lines env v formatted edited_linenums),
      VerifyAstUnchanged (edited_content v) (result_str env v formatted edited_linenums)
        (black_chunks env v formatted) edited_linenums]"

text \<open>How one iteration of the inner \<open>for\<close> loop ends.\<close>

datatype step = Break "yielded option" | Continue | Raise error

text \<open>
  The body of \<open>for context_lines in range(max_context_lines + 1)\<close>: the events of the
  iteration, how it ends, and the dictionary of options after it. \<open>Break None\<close> leaves
  the loop with nothing yielded, \<open>Break (Some y)\<close> yields \<open>y\<close> and then leaves it.
\<close>

definition try_margin ::
  "'c collaborators \<Rightarrow> file_vars \<Rightarrow> black_args \<Rightarrow> nat \<Rightarrow> 'c event list \<times> step \<times> black_args"
where
  "try_margin env v b context_lines =
     (case revision_vs_lines env (git_root v) (revision v) (path_in_repo v)
             (edited_lines env v) context_lines of
        Inl e \<Rightarrow>
          ([RevisionVsLines (path_in_repo v) (edited_lines env v) context_lines], Raise e, b)
      | Inr edited_linenums \<Rightarrow>
          if enable_isort v \<and> edited_linenums = [] \<and> edited_content v = worktree_content v
          then ([RevisionVsLines (path_in_repo v) (edited_lines env v) context_lines],
                Break None, b)
          else
            (case run_black env (src v) (edited_content v) b of
               (Inl e, b') \<Rightarrow>
                 ([RevisionVsLines (path_in_repo v) (edited_lines env v) context_lines,
                   RunBlack (src v) (edited_content v) b], Raise e, b')
             | (Inr formatted, b') \<Rightarrow>
                 (iteration_events env v b context_lines edited_linenums formatted,
                  (case verify_ast_unchanged env (edited_content v)
                          (result_str env v formatted edited_linenums)
                          (black_chunks env v formatted) edited_linenums of
                     Some e \<Rightarrow>
                       if e = NotEquivalentError
                       then (if context_lines = max_context_lines env v
                             then Raise e else Continue)
                       else Raise e
                   | None \<Rightarrow>
                       if result_str env v formatted edited_linenums \<noteq> worktree_content v
                       then Break (Some (src v, worktree_content v,
                              result_str env v formatted edited_linenums,
                              chosen_lines env v formatted edited_linenums))
                       else Break None),
                  b')))"

text \<open>
  The inner \<open>for\<close> loop over the margins still to try, from the dictionary \<open>b\<close>. It
  returns the events of each iteration it ran, either the exception that left it or what
  it yielded, and the dictionary after it.
\<close>

fun retry_loop ::
  "'c collaborators \<Rightarrow> file_vars \<Rightarrow> black_args \<Rightarrow> nat list
     \<Rightarrow> 'c event list list \<times> (error + yielded option) \<times> black_args"
where
  "retry_loop env v b [] = ([], Inr None, b)"
| "retry_loop env v b (context_lines # rest) =
     (case try_margin env v b context_lines of
        (evs, Raise e, b') \<Rightarrow> ([evs], Inl e, b')
      | (evs, Break y, b') \<Rightarrow> ([evs], Inr y, b')
      | (evs, Continue, b') \<Rightarrow>
          (case retry_loop env v b' rest of (its, r, b'') \<Rightarrow> (evs # its, r, b'')))"

definition retry ::
  "'c collaborators \<Rightarrow> file_vars \<Rightarrow> black_args
     \<Rightarrow> 'c event list list \<times> (error + yielded option) \<times> black_args"
where
  "retry env v b = retry_loop env v b [0 ..< max_context_lines env v + 1]"

text \<open>
  The dictionary of options as the iteration after the margins \<open>ms\<close> finds it, when
  the loop starts from \<open>b\<close> and runs them all.
\<close>

fun black_args_after ::
  "'c collaborators \<Rightarrow> file_vars \<Rightarrow> black_args \<Rightarrow> nat list \<Rightarrow> black_args" where
  "black_args_after env v b [] = b"
| "black_args_after env v b (context_lines # rest) =
     black_args_after env v (snd (snd (try_margin env v b context_lines))) rest"

subsection \<open>The generator \<open>format_edited_parts\<close>\<close>

text \<open>
  One pass of \<open>for path_in_repo in sorted(changed_files)\<close>, from the dictionary \<open>b\<close>: read
  the file, run isort when enabled (with the \<open>config\<close> and \<open>line_length\<close> that the
  dictionary holds at that time), then the retry loop. \<open>git_root / path_in_repo\<close> appends
  the parts of the relative path. The result is an exception, or what the file yields.
\<close>

definition file_vars_of ::
  "path \<Rightarrow> string \<Rightarrow> bool \<Rightarrow> path \<Rightarrow> content \<Rightarrow> content \<Rightarrow> file_vars" where
  "file_vars_of groot revn isort_on p wc ec =
     \<lparr>git_root = groot, revision = revn, enable_isort = isort_on, path_in_repo = p,
      src = groot @ p, worktree_content = wc, edited_content = ec\<rparr>"

definition process_file ::
  "'c collaborators \<Rightarrow> path \<Rightarrow> string \<Rightarrow> bool \<Rightarrow> black_args \<Rightarrow> path
     \<Rightarrow> 'c event list \<times> (error + yielded option) \<times> black_args" where
  "process_file env groot revn isort_on b p =
     (case read_text env (groot @ p) of
        Inl e \<Rightarrow> ([ReadText (groot @ p)], Inl e, b)
      | Inr wc \<Rightarrow>
          if isort_on then
            (case apply_isort env wc (groot @ p) (map_of b ''config'')
                    (map_of b ''line_length'') of
               Inl e \<Rightarrow>
                 ([ReadText (groot @ p),
                   ApplyIsort wc (groot @ p) (map_of b ''config'')
                     (map_of b ''line_length'')], Inl e, b)
             | Inr ec \<Rightarrow>
                 (case retry env (file_vars_of groot revn isort_on p wc ec) b of
                    (its, r, b') \<Rightarrow>
                      (ReadText (groot @ p) #
                       ApplyIsort wc (groot @ p) (map_of b ''config'')
                         (map_of b ''line_length'') # concat its, r, b')))
          else
            (case retry env (file_vars_of groot revn isort_on p wc wc) b of
               (its, r, b') \<Rightarrow> (ReadText (groot @ p) # concat its, r, b')))"

fun yield_events :: "yielded option \<Rightarrow> 'c event list" where
  "yield_events None = []"
| "yield_events (Some (s, wc, rs, cl)) = [Yield s wc rs cl]"

text \<open>
  The outer \<open>for\<close> loop over the sorted changed files. An exception raised for one file
  leaves the generator: the files after it are not processed.
\<close>

fun files_loop ::
  "'c collaborators \<Rightarrow> path \<Rightarrow> string \<Rightarrow> bool \<Rightarrow> black_args \<Rightarrow> path list
     \<Rightarrow> 'c event list \<times> error option \<times> black_args" where
  "files_loop env groot revn isort_on b [] = ([], None, b)"
| "files_loop env groot revn isort_on b (p # ps) =
     (case process_file env groot revn isort_on b p of
        (evs, Inl e, b') \<Rightarrow> (evs, Some e, b')
      | (evs, Inr y, b') \<Rightarrow>
          (case files_loop env groot revn isort_on b' ps of
             (evs', r, b'') \<Rightarrow> (evs @ yield_events y @ evs', r, b'')))"

text \<open>The loop \<open>for linter_cmdline in linter_cmdlines\<close> after the files.\<close>

fun linters_loop ::
  "'c collaborators \<Rightarrow> path \<Rightarrow> path list \<Rightarrow> string \<Rightarrow> string list
     \<Rightarrow> 'c event list \<times> error option" where
  "linters_loop env groot changed_files revn [] = ([], None)"
| "linters_loop env groot changed_files revn (linter_cmdline # rest) =
     (case run_linter env linter_cmdline groot changed_files revn of
        Some e \<Rightarrow> ([RunLinter linter_cmdline groot changed_files revn], Some e)
      | None \<Rightarrow>
          (case linters_loop env groot changed_files revn rest of
             (evs, r) \<Rightarrow> (RunLinter linter_cmdline groot changed_files revn # evs, r)))"

text \<open>
  The two loops of the generator, one after the other, over the files \<open>ps\<close> still to
  process: the linters run when no file has raised.
\<close>

definition run_loops ::
  "'c collaborators \<Rightarrow> path \<Rightarrow> string \<Rightarrow> bool \<Rightarrow> string list \<Rightarrow> path list \<Rightarrow> black_args
     \<Rightarrow> path list \<Rightarrow> 'c event list \<times> error option" where
  "run_loops env groot revn isort_on linter_cmdlines changed_files b ps =
     (case files_loop env groot revn isort_on b ps of
        (evs, Some e, b') \<Rightarrow> (evs, Some e)
      | (evs, None, b') \<Rightarrow>
          (case linters_loop env groot changed_files revn linter_cmdlines of
             (levs, r) \<Rightarrow> (evs @ levs, r)))"

text \<open>
  The generator: everything it does when it is run to its end, in order (the \<open>Yield\<close>
  events are the values it hands to its consumer), and the exception that ends it, if
  one does.
\<close>

definition format_edited_parts ::
  "'c collaborators \<Rightarrow> path list \<Rightarrow> string \<Rightarrow> bool \<Rightarrow> string list \<Rightarrow> black_args
     \<Rightarrow> 'c event list \<times> error option" where
  "format_edited_parts env srcs revn isort_on linter_cmdlines bargs =
     (case get_common_root env srcs of
        Inl e \<Rightarrow> ([GetCommonRoot srcs], Some e)
      | Inr groot \<Rightarrow>
          (case git_get_modified_files env srcs revn groot of
             Inl e \<Rightarrow> ([GetCommonRoot srcs, GitGetModifiedFiles srcs revn groot], Some e)
           | Inr changed_files \<Rightarrow>
               (case run_loops env groot revn isort_on linter_cmdlines changed_files bargs
                       (sort (remdups changed_files)) of
                  (evs, r) \<Rightarrow>
                    (GetCommonRoot srcs # GitGetModifiedFiles srcs revn groot # evs, r))))"

text \<open>Which events hand a value to the consumer, and which write a file.\<close>

fun is_yield :: "'c event \<Rightarrow> bool" where
  "is_yield (Yield p old_content new_content new_lines) = True"
| "is_yield ev = False"

fun is_modify_file :: "'c event \<Rightarrow> bool" where
  "is_modify_file (ModifyFile p new_content) = True"
| "is_modify_file ev = False"

subsection \<open>\<open>main\<close>\<close>

text \<open>The parsed command line, as far as \<open>main\<close> reads it.\<close>

record args =
  arg_src :: "path list"
  arg_revision :: string
  arg_isort :: bool
  arg_lint :: "string list"
  arg_check :: bool
  arg_diff :: bool
  arg_config :: "string option"
  arg_line_length :: "int option"
  arg_skip_string_normalization :: "bool option"

text \<open>
  \<open>if args.config:\<close> and \<open>if args.line_length:\<close> test truthiness (neither \<open>None\<close> nor
  empty, neither \<open>None\<close> nor zero); the third test is \<open>is not None\<close>.
\<close>

definition make_black_args :: "args \<Rightarrow> black_args" where
  "make_black_args a =
     (case arg_config a of
        Some c \<Rightarrow> if c \<noteq> [] then [(''config'', PyStr c)] else []
      | None \<Rightarrow> [])
     @ (case arg_line_length a of
        Some n \<Rightarrow> if n \<noteq> 0 then [(''line_length'', PyInt n)] else []
      | None \<Rightarrow> [])
     @ (case arg_skip_string_normalization a of
        Some b \<Rightarrow> [(''skip_string_normalization'', PyBool b)]
      | None \<Rightarrow> [])"

text \<open>
  \<open>post_gh_suggestion\<close>. The loop over the opcodes collects a change for every
  \<open>replace\<close> and \<open>insert\<close>, skips \<open>delete\<close> and \<open>equal\<close> and raises \<open>ValueError\<close> at
  any other action.
\<close>

fun suggestion_changes :: "string \<Rightarrow> opcode list \<Rightarrow> error + change list" where
  "suggestion_changes p [] = Inr []"
| "suggestion_changes p ((action, x, y, z, t) # ops) =
     (if action = ''replace'' then
        (case suggestion_changes p ops of
           Inl e \<Rightarrow> Inl e
         | Inr changes \<Rightarrow> Inr ((p, x + 1, y, (action, x, y, z, t)) # changes))
      else if action = ''insert'' then
        (case suggestion_changes p ops of
           Inl e \<Rightarrow> Inl e
         | Inr changes \<Rightarrow> Inr ((p, x, y, (action, x, y, z, t)) # changes))
      else if action = ''delete'' \<or> action = ''equal'' then suggestion_changes p ops
      else Inl (ValueError action))"

text \<open>The loop over the review comments found: every one of them is deleted.\<close>

fun delete_comments :: "'c collaborators \<Rightarrow> string list \<Rightarrow> 'c event list \<times> error option" where
  "delete_comments env [] = ([], None)"
| "delete_comments env (url # urls) =
     (case requests_delete env url of
        Some e \<Rightarrow> ([RequestsDelete url], Some e)
      | None \<Rightarrow>
          (case delete_comments env urls of (evs, r) \<Rightarrow> (RequestsDelete url # evs, r)))"

text \<open>\<open>comment_url.rsplit("/", maxsplit=1)[0] + "/reviews"\<close>.\<close>

definition review_url :: "string \<Rightarrow> string" where
  "review_url comment_url =
     (if CHR ''/'' \<in> set comment_url
      then rev (tl (dropWhile (\<lambda>c. c \<noteq> CHR ''/'') (rev comment_url)))
      else comment_url) @ ''/reviews''"

text \<open>
  The function imports \<open>requests\<close>, reads the event file (when that fails, \<open>mock\<close> is
  true, \<open>data\<close> is never assigned and \<open>len(data)\<close> raises \<open>UnboundLocalError\<close>), gets and
  deletes the review comments, diffs the old lines against the new ones, and posts one
  review with at most 15 changes. It writes no file.
\<close>

definition post_gh_suggestion ::
  "'c collaborators \<Rightarrow> string \<Rightarrow> content \<Rightarrow> textline list \<Rightarrow> 'c event list \<times> error option"
where
  "post_gh_suggestion env p old_content new_lines =
     (if \<not> requests_available env then
        ([PostGhSuggestion p old_content new_lines, ImportRequests], Some ModuleNotFoundError)
      else
        (case github_event env of
           None \<Rightarrow>
             ([PostGhSuggestion p old_content new_lines, ImportRequests, ReadGithubEvent],
              Some UnboundLocalError)
         | Some (comment_url, commit_id) \<Rightarrow>
             (case requests_get env comment_url of
                Inl e \<Rightarrow>
                  ([PostGhSuggestion p old_content new_lines, ImportRequests, ReadGithubEvent,
                    RequestsGet comment_url], Some e)
              | Inr urls \<Rightarrow>
                  (case delete_comments env urls of
                     (devs, Some e) \<Rightarrow>
                       ([PostGhSuggestion p old_content new_lines, ImportRequests,
                         ReadGithubEvent, RequestsGet comment_url] @ devs, Some e)
                   | (devs, None) \<Rightarrow>
                       (case suggestion_changes p
                               (diff_and_get_opcodes env (splitlines env old_content)
                                  new_lines) of
                          Inl e \<Rightarrow>
                            ([PostGhSuggestion p old_content new_lines, ImportRequests,
                              ReadGithubEvent, RequestsGet comment_url] @ devs @
                             [DiffAndGetOpcodes (splitlines env old_content) new_lines],
                             Some e)
                        | Inr changes \<Rightarrow>
                            ([PostGhSuggestion p old_content new_lines, ImportRequests,
                              ReadGithubEvent, RequestsGet comment_url] @ devs @
                             [DiffAndGetOpcodes (splitlines env old_content) new_lines,
                              RequestsPost (review_url comment_url) commit_id
                                (if take 15 changes = [] then ''APPROVE''
                                 else ''REQUEST_CHANGES'')
                                (take 15 changes)],
                             requests_post env (review_url comment_url) commit_id
                               (if take 15 changes = [] then ''APPROVE''
                                else ''REQUEST_CHANGES'')
                               (take 15 changes)))))))"

definition modify_file ::
  "'c collaborators \<Rightarrow> path \<Rightarrow> content \<Rightarrow> 'c event list \<times> error option" where
  "modify_file env p new_content = ([ModifyFile p new_content], write_text env p new_content)"

text \<open>The body of the \<open>for\<close> loop of \<open>main\<close>, run for one yielded tuple.\<close>

definition on_yield ::
  "'c collaborators \<Rightarrow> args \<Rightarrow> path \<Rightarrow> content \<Rightarrow> content \<Rightarrow> textline list
     \<Rightarrow> 'c event list \<times> error option" where
  "on_yield env a p old_content new_content new_lines =
     (case (if arg_diff a then
              (case relative_to_cwd env p of
                 Inl e \<Rightarrow> ([RelativeToCwd p], Some e)
               | Inr rel \<Rightarrow>
                   (case post_gh_suggestion env rel old_content new_lines of
                      (evs, r) \<Rightarrow> (RelativeToCwd p # evs, r)))
            else ([], None)) of
        (evs, Some e) \<Rightarrow> (evs, Some e)
      | (evs, None) \<Rightarrow>
          if \<not> arg_check a \<and> \<not> arg_diff a then
            (case modify_file env p new_content of (evs', r) \<Rightarrow> (evs @ evs', r))
          else (evs, None))"

text \<open>The call of the generator in \<open>main\<close>, with \<open>paths\<close> the set of the given sources.\<close>

definition generator :: "'c collaborators \<Rightarrow> args \<Rightarrow> 'c event list \<times> error option" where
  "generator env a =
     format_edited_parts env (remdups (arg_src a)) (arg_revision a) (arg_isort a)
       (arg_lint a) (make_black_args a)"

text \<open>
  \<open>main\<close> drives the generator: it passes over the generator's events and runs its body
  at each \<open>Yield\<close>. When the body raises, the generator is not resumed. The flag is
  \<open>some_files_changed\<close>.
\<close>

fun main_loop ::
  "'c collaborators \<Rightarrow> args \<Rightarrow> 'c event list \<Rightarrow> bool \<Rightarrow> 'c event list \<times> (error + bool)"
where
  "main_loop env a [] some_files_changed = ([], Inr some_files_changed)"
| "main_loop env a (Yield p old_content new_content new_lines # evs) some_files_changed =
     (case on_yield env a p old_content new_content new_lines of
        (b, Some e) \<Rightarrow> (Yield p old_content new_content new_lines # b, Inl e)
      | (b, None) \<Rightarrow>
          (case main_loop env a evs True of
             (t, r) \<Rightarrow> (Yield p old_content new_content new_lines # b @ t, r)))"
| "main_loop env a (ev # evs) some_files_changed =
     (case main_loop env a evs some_files_changed of (t, r) \<Rightarrow> (ev # t, r))"

text \<open>
  \<open>main\<close>, from the parsed arguments on: the events of the whole run and the return
  value, or the exception that ends the run (\<open>exit(1)\<close> raises \<open>SystemExit\<close>).
\<close>

definition main :: "'c collaborators \<Rightarrow> args \<Rightarrow> 'c event list \<times> (error + int)" where
  "main env a =
     (if arg_isort a \<and> \<not> isort_available env then ([], Inl (SystemExit 1))
      else
        (case generator env a of
           (gen, fin) \<Rightarrow>
             (case main_loop env a gen False of
                (tr, Inl e) \<Rightarrow> (tr, Inl e)
              | (tr, Inr some_files_changed) \<Rightarrow>
                  (case fin of
                     Some e \<Rightarrow> (tr, Inl e)
                   | None \<Rightarrow> (tr, Inr (if arg_check a \<and> some_files_changed then 1 else 0))))))"

section \<open>An example repository\<close>

text \<open>
  A small instance of the collaborators, to run the model on: a repository with five
  changed files. The formatter of the example takes the key \<open>config\<close> out of the
  dictionary it is given, as a callee that receives the dictionary by reference can; with
  a configuration it rewrites a line \<open>a\<close>, \<open>b\<close> or \<open>c\<close> to \<open>A\<close>, \<open>B\<close> or \<open>C!\<close>, without one
  to \<open>AA\<close>, \<open>BB\<close> or \<open>C!\<close>, and it cannot parse \<open>(\<close>. The verifier of the example accepts
  a result that has no \<open>!\<close> and in which no line or every line differs from the edited
  one. \<open>a.py\<close> has an edit in its first line, \<open>b.py\<close> has none, isort reorders \<open>e.py\<close>.
  \<open>str.splitlines\<close> is taken for text whose only line boundary is the line feed.
\<close>

type_synonym example_chunk = "nat \<times> textline list \<times> textline list"

fun example_splitlines_from :: "string \<Rightarrow> string \<Rightarrow> textline list" where
  "example_splitlines_from cur [] = (if cur = [] then [] else [cur])"
| "example_splitlines_from cur (c # cs) =
     (if c = CHR 0x0A then cur # example_splitlines_from [] cs
      else example_splitlines_from (cur @ [c]) cs)"

definition example_joinlines :: "textline list \<Rightarrow> content" where
  "example_joinlines ls = concat (map (\<lambda>l. l @ [CHR 0x0A]) ls)"

definition example_format_line :: "bool \<Rightarrow> textline \<Rightarrow> textline" where
  "example_format_line configured l =
     (if l = ''a'' then (if configured then ''A'' else ''AA'')
      else if l = ''b'' then (if configured then ''B'' else ''BB'')
      else if l = ''c'' then ''C!''
      else l)"

definition example_run_black ::
  "path \<Rightarrow> content \<Rightarrow> black_args \<Rightarrow> (error + textline list) \<times> black_args" where
  "example_run_black p c b =
     (if c = example_joinlines [''(''] then Inl (OtherError ''InvalidInput'')
      else Inr (map (example_format_line (map_of b ''config'' \<noteq> None))
                  (example_splitlines_from [] c)),
      filter (\<lambda>kv. fst kv \<noteq> ''config'') b)"

definition example_verify ::
  "content \<Rightarrow> content \<Rightarrow> example_chunk list \<Rightarrow> int list \<Rightarrow> error option" where
  "example_verify ec rs chunks linenums =
     (if CHR ''!'' \<notin> set rs \<and>
         (rs = ec \<or>
          list_all (\<lambda>l. l \<notin> set (example_splitlines_from [] ec))
            (example_splitlines_from [] rs))
      then None else Some NotEquivalentError)"

definition example_env :: "example_chunk collaborators" where
  "example_env =
     \<lparr>get_common_root = (\<lambda>srcs. Inr [''repo'']),
      git_get_modified_files = (\<lambda>srcs revn groot. Inr srcs),
      read_text = (\<lambda>p.
        if p = [''repo'', ''a.py''] then Inr (example_joinlines [''a'', ''b''])
        else if p = [''repo'', ''b.py''] then Inr (example_joinlines [''b''])
        else if p = [''repo'', ''c.py''] then Inr (example_joinlines [''c''])
        else if p = [''repo'', ''d.py''] then Inr (example_joinlines [''(''])
        else if p = [''repo'', ''e.py''] then Inr (example_joinlines [''q'', ''p''])
        else Inl (OtherError ''FileNotFoundError'')),
      apply_isort = (\<lambda>c p cfg len.
        if c = example_joinlines [''q'', ''p''] then Inr (example_joinlines [''p'', ''q''])
        else Inr c),
      splitlines = example_splitlines_from [],
      revision_vs_lines = (\<lambda>groot revn p ls m.
        if p = [''b.py''] then Inr []
        else Inr (map int [0 ..< min (Suc m) (length ls)])),
      run_black = example_run_black,
      diff_and_get_opcodes = (\<lambda>a b.
        map (\<lambda>i. (if a ! i = b ! i then ''equal'' else ''replace'',
                   int i, int i + 1, int i, int i + 1)) [0 ..< length a]),
      opcodes_to_chunks = (\<lambda>ops a b.
        map (\<lambda>(tag, i1, i2, j1, j2).
               (nat i1, take (nat (i2 - i1)) (drop (nat i1) a),
                take (nat (j2 - j1)) (drop (nat j1) b))) ops),
      choose_lines = (\<lambda>chunks linenums.
        concat (map (\<lambda>(i, orig, fmt). if int i \<in> set linenums then fmt else orig) chunks)),
      joinlines = example_joinlines,
      verify_ast_unchanged = example_verify,
      run_linter = (\<lambda>cmd groot files revn. None),
      isort_available = True,
      relative_to_cwd = (\<lambda>p. Inr (last p)),
      requests_available = True,
      github_event = None,
      requests_get = (\<lambda>url. Inr []),
      requests_delete = (\<lambda>url. None),
      requests_post = (\<lambda>url commit ev changes. None),
      write_text = (\<lambda>p c. None)\<rparr>"

definition example_args :: args where
  "example_args =
     \<lparr>arg_src = [[''a.py'']], arg_revision = ''HEAD'', arg_isort = False, arg_lint = [],
      arg_check = False, arg_diff = False, arg_config = None, arg_line_length = None,
      arg_skip_string_normalization = None\<rparr>"

definition example_args_check :: args where
  "example_args_check = example_args\<lparr>arg_check := True\<rparr>"

definition example_args_diff :: args where
  "example_args_diff = example_args\<lparr>arg_diff := True\<rparr>"

definition example_args_fatal :: args where
  "example_args_fatal =
     example_args\<lparr>arg_src := [[''c.py''], [''a.py'']], arg_check := True\<rparr>"

definition example_args_isort :: args where
  "example_args_isort = example_args\<lparr>arg_isort := True\<rparr>"

definition example_args_config :: args where
  "example_args_config = example_args\<lparr>arg_config := Some ''black.cfg''\<rparr>"

text \<open>The local variables of the example files, as the generator sets them.\<close>

definition example_file :: "string \<Rightarrow> content \<Rightarrow> content \<Rightarrow> bool \<Rightarrow> file_vars" where
  "example_file name wc ec isort_on =
     file_vars_of [''repo''] ''HEAD'' isort_on [name] wc ec"

definition example_file_a :: "bool \<Rightarrow> file_vars" where
  "example_file_a isort_on =
     example_file ''a.py'' (example_joinlines [''a'', ''b'']) (example_joinlines [''a'', ''b''])
       isort_on"

definition example_file_b :: "bool \<Rightarrow> file_vars" where
  "example_file_b isort_on =
     example_file ''b.py'' (example_joinlines [''b'']) (example_joinlines [''b'']) isort_on"

definition example_file_c :: "bool \<Rightarrow> file_vars" where
  "example_file_c isort_on =
     example_file ''c.py'' (example_joinlines [''c'']) (example_joinlines [''c'']) isort_on"

definition example_file_d :: "bool \<Rightarrow> file_vars" where
  "example_file_d isort_on =
     example_file ''d.py'' (example_joinlines [''('']) (example_joinlines [''('']) isort_on"

definition example_file_e :: file_vars where
  "example_file_e =
     example_file ''e.py'' (example_joinlines [''q'', ''p'']) (example_joinlines [''p'', ''q''])
       True"

section \<open>The retry loop\<close>

lemmas model_defs = try_margin_def iteration_events_def edited_lines_def max_context_lines_def
  result_str_def chosen_lines_def black_chunks_def opcodes_def

lemmas example_defs = example_env_def example_file_def file_vars_of_def example_joinlines_def
  example_format_line_def example_run_black_def example_verify_def

lemmas example_file_defs = example_file_a_def example_file_b_def example_file_c_def
  example_file_d_def example_file_e_def

lemmas example_args_defs = example_args_def example_args_check_def example_args_diff_def
  example_args_fatal_def example_args_isort_def example_args_config_def

lemma try_margin_at_max:
  "fst (snd (try_margin env v b (max_context_lines env v))) \<noteq> Continue"
  by (simp add: try_margin_def split: sum.splits option.splits prod.splits)

lemma retry_loop_Continue:
  "try_margin env v b m = (evs, Continue, b') \<Longrightarrow>
     retry_loop env v b (m # ms) =
       (evs # fst (retry_loop env v b' ms), snd (retry_loop env v b' ms))"
  by (simp split: prod.splits)

lemma retry_loop_Break:
  "try_margin env v b m = (evs, Break y, b') \<Longrightarrow>
     retry_loop env v b (m # ms) = ([evs], Inr y, b')"
  by simp

lemma retry_loop_Raise:
  "try_margin env v b m = (evs, Raise e, b') \<Longrightarrow>
     retry_loop env v b (m # ms) = ([evs], Inl e, b')"
  by simp

lemma retry_loop_from:
  "k \<le> n \<Longrightarrow> n = max_context_lines env v \<Longrightarrow>
     1 \<le> length (fst (retry_loop env v b [k ..< n + 1])) \<and>
     length (fst (retry_loop env v b [k ..< n + 1])) \<le> n + 1 - k"
proof (induction "n - k" arbitrary: k b)
  case 0
  then have kn: "k = n" by simp
  have "[n ..< n + 1] = [n]" by simp
  with kn show ?case
    by (cases "try_margin env v b n" rule: prod_cases3)
       (auto split: step.splits prod.splits)
next
  case (Suc d)
  then have lt: "k < n" and d: "d = n - Suc k" and le: "Suc k \<le> n" by simp_all
  have unf: "[k ..< n + 1] = k # [Suc k ..< n + 1]" using lt by (simp add: upt_conv_Cons)
  obtain evs st b' where tm: "try_margin env v b k = (evs, st, b')"
    by (cases "try_margin env v b k" rule: prod_cases3)
  show ?case
  proof (cases st)
    case Continue
    have ar: "n + 1 - k = Suc (n + 1 - Suc k)" using lt by simp
    from Suc.hyps(1) [OF d le Suc.prems(2), of b'] tm Continue show ?thesis
      unfolding unf ar by (simp add: retry_loop_Continue del: retry_loop.simps upt_Suc)
  next
    case (Break y)
    with tm lt show ?thesis unfolding unf by simp
  next
    case (Raise e)
    with tm lt show ?thesis unfolding unf by simp
  qed
qed

text \<open>
  The loop, seen from one of its iterations: when the iteration of index \<open>i\<close> is run,
  the loop is the iterations before it followed by the loop over the remaining margins,
  started from the dictionary that the earlier iterations left.
\<close>

lemma retry_loop_split:
  "i < length (fst (retry_loop env v b ms)) \<Longrightarrow>
     i < length ms \<and>
     retry_loop env v b ms =
       (take i (fst (retry_loop env v b ms))
          @ fst (retry_loop env v (black_args_after env v b (take i ms)) (drop i ms)),
        snd (retry_loop env v (black_args_after env v b (take i ms)) (drop i ms)))"
proof (induction ms arbitrary: b i)
  case Nil
  then show ?case by simp
next
  case (Cons m ms)
  show ?case
  proof (cases i)
    case 0
    then show ?thesis by simp
  next
    case (Suc j)
    obtain evs st b' where tm: "try_margin env v b m = (evs, st, b')"
      by (cases "try_margin env v b m" rule: prod_cases3)
    from Cons.prems Suc tm have st: "st = Continue"
      by (cases st) simp_all
    note unf = retry_loop_Continue [OF tm [unfolded st]]
    from Cons.prems Suc have j: "j < length (fst (retry_loop env v b' ms))"
      by (simp add: unf del: retry_loop.simps)
    from Cons.IH [OF j] have jl: "j < length ms"
      and eq: "retry_loop env v b' ms =
       (take j (fst (retry_loop env v b' ms))
          @ fst (retry_loop env v (black_args_after env v b' (take j ms)) (drop j ms)),
        snd (retry_loop env v (black_args_after env v b' (take j ms)) (drop j ms)))"
      by simp_all
    have ba: "black_args_after env v b (take i (m # ms)) = black_args_after env v b' (take j ms)"
      using Suc tm by simp
    have "retry_loop env v b (m # ms) =
        (evs # fst (retry_loop env v b' ms), snd (retry_loop env v b' ms))"
      by (rule unf)
    also have "\<dots> = (take i (evs # fst (retry_loop env v b' ms))
          @ fst (retry_loop env v (black_args_after env v b' (take j ms)) (drop j ms)),
        snd (retry_loop env v (black_args_after env v b' (take j ms)) (drop j ms)))"
      using Suc eq by (metis append_Cons fst_conv snd_conv take_Suc_Cons)
    finally show ?thesis
      using Suc jl ba unf by (simp del: retry_loop.simps)
  qed
qed

lemma retry_split:
  assumes "m < length (fst (retry env v b))"
  shows "m \<le> max_context_lines env v"
    and "retry env v b =
       (take m (fst (retry env v b))
          @ fst (retry_loop env v (black_args_after env v b [0 ..< m])
                   (m # [Suc m ..< max_context_lines env v + 1])),
        snd (retry_loop env v (black_args_after env v b [0 ..< m])
                   (m # [Suc m ..< max_context_lines env v + 1])))"
proof -
  define n where "n = max_context_lines env v + 1"
  from assms have len: "m < length (fst (retry_loop env v b [0 ..< n]))"
    by (simp add: retry_def n_def del: upt_Suc)
  from retry_loop_split [OF len] have lt: "m < n" by simp
  note eq = retry_loop_split [OF len, THEN conjunct2]
  from lt show "m \<le> max_context_lines env v" by (simp add: n_def)
  from lt have t: "take m [0 ..< n] = [0 ..< m]"
    by (simp add: take_upt del: upt_Suc)
  have "drop m [0 ..< n] = [m ..< n]" by (simp add: drop_upt del: upt_Suc)
  also have "\<dots> = m # [Suc m ..< n]" using lt by (rule upt_conv_Cons)
  finally have d: "drop m [0 ..< n] = m # [Suc m ..< n]" .
  from eq have "retry_loop env v b [0 ..< n] =
       (take m (fst (retry_loop env v b [0 ..< n]))
          @ fst (retry_loop env v (black_args_after env v b [0 ..< m]) (m # [Suc m ..< n])),
        snd (retry_loop env v (black_args_after env v b [0 ..< m]) (m # [Suc m ..< n])))"
    unfolding t d .
  then show "retry env v b =
       (take m (fst (retry env v b))
          @ fst (retry_loop env v (black_args_after env v b [0 ..< m])
                   (m # [Suc m ..< max_context_lines env v + 1])),
        snd (retry_loop env v (black_args_after env v b [0 ..< m])
                   (m # [Suc m ..< max_context_lines env v + 1])))"
    unfolding retry_def n_def .
qed

lemma retry_ends_at:
  assumes "m < length (fst (retry env v b))"
    and "retry_loop env v (black_args_after env v b [0 ..< m])
           (m # [Suc m ..< max_context_lines env v + 1]) = ([evs], r, b')"
  shows "retry env v b = (take m (fst (retry env v b)) @ [evs], r, b')"
    and "length (fst (retry env v b)) = Suc m"
proof -
  from retry_split(2) [OF assms(1)]
  show eq: "retry env v b = (take m (fst (retry env v b)) @ [evs], r, b')"
    by (simp only: assms(2) fst_conv snd_conv)
  have "length (fst (retry env v b)) =
      length (fst (take m (fst (retry env v b)) @ [evs], r, b'))"
    by (rule arg_cong [where f = "\<lambda>x. length (fst x)", OF eq])
  also have "\<dots> = Suc m" using assms(1) by simp
  finally show "length (fst (retry env v b)) = Suc m" .
qed

lemma retry_length_split:
  assumes "m < length (fst (retry env v b))"
  shows "length (fst (retry env v b)) =
           m + length (fst (retry_loop env v (black_args_after env v b [0 ..< m])
                              (m # [Suc m ..< max_context_lines env v + 1])))"
proof -
  have "length (fst (retry env v b)) =
      length (fst (take m (fst (retry env v b))
          @ fst (retry_loop env v (black_args_after env v b [0 ..< m])
                   (m # [Suc m ..< max_context_lines env v + 1])),
        snd (retry_loop env v (black_args_after env v b [0 ..< m])
                   (m # [Suc m ..< max_context_lines env v + 1]))))"
    by (rule arg_cong [where f = "\<lambda>x. length (fst x)", OF retry_split(2) [OF assms]])
  also have "\<dots> = m + length (fst (retry_loop env v (black_args_after env v b [0 ..< m])
                              (m # [Suc m ..< max_context_lines env v + 1])))"
    using assms by (simp del: retry_loop.simps)
  finally show ?thesis .
qed



lemma retry_loop_iterations:
  "it \<in> set (fst (retry_loop env v b ms)) \<Longrightarrow>
     \<exists>m b0. it = fst (try_margin env v b0 m)"
proof (induction ms arbitrary: b)
  case Nil
  then show ?case by simp
next
  case (Cons m ms)
  obtain evs st b' where tm: "try_margin env v b m = (evs, st, b')"
    by (cases "try_margin env v b m" rule: prod_cases3)
  show ?case
  proof (cases st)
    case Continue
    from Cons.prems have "it = evs \<or> it \<in> set (fst (retry_loop env v b' ms))"
      by (simp add: retry_loop_Continue [OF tm [unfolded Continue]] del: retry_loop.simps)
    with Cons.IH [of b'] tm show ?thesis by (metis fst_conv)
  next
    case (Break y)
    with Cons.prems tm show ?thesis by (metis retry_loop_Break fst_conv empty_iff empty_set set_ConsD)
  next
    case (Raise e)
    with Cons.prems tm show ?thesis by (metis retry_loop_Raise fst_conv empty_iff empty_set set_ConsD)
  qed
qed

text \<open>What an iteration does, from what the collaborators return in it.\<close>

lemma try_margin_run_black_fails:
  assumes "revision_vs_lines env (git_root v) (revision v) (path_in_repo v)
             (edited_lines env v) m = Inr edited_linenums"
    and "\<not> (enable_isort v \<and> edited_linenums = [] \<and> edited_content v = worktree_content v)"
    and "run_black env (src v) (edited_content v) b = (Inl e, b')"
  shows "try_margin env v b m =
           ([RevisionVsLines (path_in_repo v) (edited_lines env v) m,
             RunBlack (src v) (edited_content v) b], Raise e, b')"
  using assms by (auto simp: try_margin_def)

lemma try_margin_verified:
  assumes "revision_vs_lines env (git_root v) (revision v) (path_in_repo v)
             (edited_lines env v) m = Inr edited_linenums"
    and "\<not> (enable_isort v \<and> edited_linenums = [] \<and> edited_content v = worktree_content v)"
    and "run_black env (src v) (edited_content v) b = (Inr formatted, b')"
  shows "try_margin env v b m =
           (iteration_events env v b m edited_linenums formatted,
            (case verify_ast_unchanged env (edited_content v)
                    (result_str env v formatted edited_linenums)
                    (black_chunks env v formatted) edited_linenums of
               Some e \<Rightarrow>
                 if e = NotEquivalentError
                 then (if m = max_context_lines env v then Raise e else Continue)
                 else Raise e
             | None \<Rightarrow>
                 if result_str env v formatted edited_linenums \<noteq> worktree_content v
                 then Break (Some (src v, worktree_content v,
                        result_str env v formatted edited_linenums,
                        chosen_lines env v formatted edited_linenums))
                 else Break None),
            b')"
  using assms by (auto simp: try_margin_def)

section \<open>The generator, seen from one file and one iteration\<close>

lemma process_file_retry:
  assumes "read_text env (groot @ p) = Inr wc"
    and "(if isort_on
          then apply_isort env wc (groot @ p) (map_of b ''config'') (map_of b ''line_length'')
          else Inr wc) = Inr ec"
  shows "process_file env groot revn isort_on b p =
           (ReadText (groot @ p)
              # (if isort_on
                 then [ApplyIsort wc (groot @ p) (map_of b ''config'') (map_of b ''line_length'')]
                 else [])
              @ concat (fst (retry env (file_vars_of groot revn isort_on p wc ec) b)),
            snd (retry env (file_vars_of groot revn isort_on p wc ec) b))"
  using assms by (auto simp: process_file_def case_prod_beta split: if_splits)

lemma files_loop_Inl:
  "process_file env groot revn isort_on b p = (evs, Inl e, b') \<Longrightarrow>
     files_loop env groot revn isort_on b (p # ps) = (evs, Some e, b')"
  by simp

lemma files_loop_Inr:
  "process_file env groot revn isort_on b p = (evs, Inr y, b') \<Longrightarrow>
     files_loop env groot revn isort_on b (p # ps) =
       (evs @ yield_events y @ fst (files_loop env groot revn isort_on b' ps),
        snd (files_loop env groot revn isort_on b' ps))"
  by (simp split: prod.splits)

lemma files_loop_append:
  "files_loop env groot revn isort_on b before = (evs_before, None, b1) \<Longrightarrow>
     files_loop env groot revn isort_on b (before @ ps) =
       (evs_before @ fst (files_loop env groot revn isort_on b1 ps),
        snd (files_loop env groot revn isort_on b1 ps))"
proof (induction before arbitrary: b evs_before)
  case Nil
  then show ?case by simp
next
  case (Cons q before)
  obtain evs r b' where pq: "process_file env groot revn isort_on b q = (evs, r, b')"
    by (cases "process_file env groot revn isort_on b q" rule: prod_cases3)
  show ?case
  proof (cases r)
    case (Inl e)
    with pq Cons.prems show ?thesis by (simp add: files_loop_Inl del: files_loop.simps)
  next
    case (Inr y)
    note unf = files_loop_Inr [OF pq [unfolded Inr]]
    from Cons.prems have rest: "files_loop env groot revn isort_on b' before =
        (fst (files_loop env groot revn isort_on b' before), None, b1)"
      and evs: "evs_before = evs @ yield_events y @ fst (files_loop env groot revn isort_on b' before)"
      unfolding unf by (simp_all add: prod_eq_iff)
    from Cons.IH [OF rest] evs show ?thesis
      using unf by (simp del: files_loop.simps)
  qed
qed

lemma run_loops_append:
  "files_loop env groot revn isort_on b before = (evs_before, None, b1) \<Longrightarrow>
     run_loops env groot revn isort_on cmds changed_files b (before @ ps) =
       (evs_before @ fst (run_loops env groot revn isort_on cmds changed_files b1 ps),
        snd (run_loops env groot revn isort_on cmds changed_files b1 ps))"
  by (simp add: run_loops_def files_loop_append case_prod_beta del: files_loop.simps
      split: option.splits)

lemma run_loops_Inl:
  "process_file env groot revn isort_on b p = (evs, Inl e, b') \<Longrightarrow>
     run_loops env groot revn isort_on cmds changed_files b (p # after) = (evs, Some e)"
  by (simp add: run_loops_def)

lemma run_loops_Inr:
  "process_file env groot revn isort_on b p = (evs, Inr y, b') \<Longrightarrow>
     run_loops env groot revn isort_on cmds changed_files b (p # after) =
       (evs @ yield_events y @ fst (run_loops env groot revn isort_on cmds changed_files b' after),
        snd (run_loops env groot revn isort_on cmds changed_files b' after))"
  by (simp add: run_loops_def files_loop_Inr case_prod_beta del: files_loop.simps
      split: option.splits)

lemma format_edited_parts_loops:
  assumes "get_common_root env srcs = Inr groot"
    and "git_get_modified_files env srcs revn groot = Inr changed_files"
  shows "format_edited_parts env srcs revn isort_on cmds bargs =
           (GetCommonRoot srcs # GitGetModifiedFiles srcs revn groot
              # fst (run_loops env groot revn isort_on cmds changed_files bargs
                       (sort (remdups changed_files))),
            snd (run_loops env groot revn isort_on cmds changed_files bargs
                   (sort (remdups changed_files))))"
  using assms by (simp add: format_edited_parts_def case_prod_beta)

text \<open>
  The generator at a file \<open>p\<close> of the batch and an iteration \<open>m\<close> of its loop that is
  run: its events are those up to that iteration, then those of the loop over the
  margins from \<open>m\<close> on; it ends with the exception of that loop, or goes on with what the
  loop yields and the files after \<open>p\<close>.
\<close>

lemma generator_at_margin:
  fixes env :: "'c collaborators"
  defines "v \<equiv> file_vars_of"
  assumes "get_common_root env srcs = Inr groot"
    and "git_get_modified_files env srcs revn groot = Inr changed_files"
    and "sort (remdups changed_files) = before @ p # after"
    and "files_loop env groot revn isort_on bargs before = (evs_before, None, b)"
    and "read_text env (groot @ p) = Inr wc"
    and "(if isort_on
          then apply_isort env wc (groot @ p) (map_of b ''config'') (map_of b ''line_length'')
          else Inr wc) = Inr ec"
    and "m < length (fst (retry env (v groot revn isort_on p wc ec) b))"
    and "retry_loop env (v groot revn isort_on p wc ec)
           (black_args_after env (v groot revn isort_on p wc ec) b [0 ..< m])
           (m # [Suc m ..< max_context_lines env (v groot revn isort_on p wc ec) + 1])
         = (its, r, b')"
  shows "format_edited_parts env srcs revn isort_on cmds bargs =
           (case r of
              Inl e \<Rightarrow>
                (GetCommonRoot srcs # GitGetModifiedFiles srcs revn groot # evs_before
                   @ ReadText (groot @ p)
                   # (if isort_on
                      then [ApplyIsort wc (groot @ p) (map_of b ''config'')
                              (map_of b ''line_length'')]
                      else [])
                   @ concat (take m (fst (retry env (v groot revn isort_on p wc ec) b)))
                   @ concat its,
                 Some e)
            | Inr y \<Rightarrow>
                (GetCommonRoot srcs # GitGetModifiedFiles srcs revn groot # evs_before
                   @ ReadText (groot @ p)
                   # (if isort_on
                      then [ApplyIsort wc (groot @ p) (map_of b ''config'')
                              (map_of b ''line_length'')]
                      else [])
                   @ concat (take m (fst (retry env (v groot revn isort_on p wc ec) b)))
                   @ concat its @ yield_events y
                   @ fst (run_loops env groot revn isort_on cmds changed_files b' after),
                 snd (run_loops env groot revn isort_on cmds changed_files b' after)))"
proof -
  let ?v = "file_vars_of groot revn isort_on p wc ec"
  from assms(8) have len: "m < length (fst (retry env ?v b))" by (simp add: v_def)
  from assms(9) have R: "retry_loop env ?v (black_args_after env ?v b [0 ..< m])
           (m # [Suc m ..< max_context_lines env ?v + 1]) = (its, r, b')"
    by (simp add: v_def)
  from retry_split(2) [OF len] R
  have rt: "retry env ?v b = (take m (fst (retry env ?v b)) @ its, r, b')"
    by simp
  then have f: "fst (retry env ?v b) = take m (fst (retry env ?v b)) @ its"
    and s: "snd (retry env ?v b) = (r, b')"
    by (simp_all add: prod_eq_iff)
  from process_file_retry [OF assms(6,7), of revn]
  have pf: "process_file env groot revn isort_on b p =
           (ReadText (groot @ p)
              # (if isort_on
                 then [ApplyIsort wc (groot @ p) (map_of b ''config'') (map_of b ''line_length'')]
                 else [])
              @ concat (take m (fst (retry env ?v b))) @ concat its, r, b')"
    using f s by (metis concat_append)
  have fe: "format_edited_parts env srcs revn isort_on cmds bargs =
           (GetCommonRoot srcs # GitGetModifiedFiles srcs revn groot # evs_before
              @ fst (run_loops env groot revn isort_on cmds changed_files b (p # after)),
            snd (run_loops env groot revn isort_on cmds changed_files b (p # after)))"
    using format_edited_parts_loops [OF assms(2,3), of isort_on cmds bargs]
      run_loops_append [OF assms(5), of cmds changed_files "p # after"] assms(4)
    by simp
  show ?thesis
  proof (cases r)
    case (Inl e)
    from run_loops_Inl [OF pf [unfolded Inl], of cmds changed_files after] fe Inl
    show ?thesis by (simp add: v_def)
  next
    case (Inr y)
    from run_loops_Inr [OF pf [unfolded Inr], of cmds changed_files after] fe Inr
    show ?thesis by (simp add: v_def)
  qed
qed

section \<open>Facts of the example repository\<close>

lemma example_sort_a: "sort (remdups [[''a.py'']]) = [] @ [''a.py''] # []"
  by code_simp

lemma example_sort_c: "sort (remdups [[''c.py'']]) = [] @ [''c.py''] # []"
  by code_simp

lemma example_sort_e: "sort (remdups [[''e.py'']]) = [] @ [''e.py''] # []"
  by code_simp

lemma example_sort_de: "sort (remdups [[''d.py''], [''e.py'']]) = [] @ [''d.py''] # [[''e.py'']]"
  by code_simp

lemma example_sort_eca:
  "sort (remdups [[''e.py''], [''c.py''], [''a.py'']]) = [[''a.py'']] @ [''c.py''] # [[''e.py'']]"
  by code_simp

lemma example_root: "get_common_root example_env srcs = Inr [''repo'']"
  by (simp add: example_env_def)

lemma example_git: "git_get_modified_files example_env srcs revn groot = Inr srcs"
  by (simp add: example_env_def)

lemma example_no_files: "files_loop example_env [''repo''] ''HEAD'' isort_on [] [] = ([], None, [])"
  by simp

lemma example_vars_a:
  "example_file_a isort_on =
     file_vars_of [''repo''] ''HEAD'' isort_on [''a.py''] (example_joinlines [''a'', ''b''])
       (example_joinlines [''a'', ''b''])"
  by (simp add: example_file_a_def example_file_def)

lemma example_vars_c:
  "example_file_c isort_on =
     file_vars_of [''repo''] ''HEAD'' isort_on [''c.py''] (example_joinlines [''c''])
       (example_joinlines [''c''])"
  by (simp add: example_file_c_def example_file_def)

lemma example_vars_e:
  "example_file_e =
     file_vars_of [''repo''] ''HEAD'' True [''e.py''] (example_joinlines [''q'', ''p''])
       (example_joinlines [''p'', ''q''])"
  by (simp add: example_file_e_def example_file_def)

section \<open>The claims on the retry loop and the generator\<close>

lemma file_vars_of_simps:
  "git_root (file_vars_of groot revn isort_on p wc ec) = groot"
  "revision (file_vars_of groot revn isort_on p wc ec) = revn"
  "enable_isort (file_vars_of groot revn isort_on p wc ec) = isort_on"
  "path_in_repo (file_vars_of groot revn isort_on p wc ec) = p"
  "src (file_vars_of groot revn isort_on p wc ec) = groot @ p"
  "worktree_content (file_vars_of groot revn isort_on p wc ec) = wc"
  "edited_content (file_vars_of groot revn isort_on p wc ec) = ec"
  by (simp_all add: file_vars_of_def)

lemma try_margin_first_event:
  "\<exists>evs. fst (try_margin env v b m) =
     RevisionVsLines (path_in_repo v) (edited_lines env v) m # evs"
  by (auto simp: try_margin_def iteration_events_def split: sum.splits prod.splits)

lemma retry_loop_first_event:
  "\<exists>evs rest. fst (retry_loop env v b (m # ms)) =
     (RevisionVsLines (path_in_repo v) (edited_lines env v) m # evs) # rest"
proof -
  obtain evs st b' where tm: "try_margin env v b m = (evs, st, b')"
    by (cases "try_margin env v b m" rule: prod_cases3)
  with try_margin_first_event [of env v b m] obtain evs'
    where "evs = RevisionVsLines (path_in_repo v) (edited_lines env v) m # evs'" by auto
  with tm show ?thesis
    by (cases st) (auto simp: case_prod_beta)
qed

text \<open>
  Claim C6. When \<open>run_black\<close> raises in an iteration of the loop of a file of the batch,
  at whatever margin, the generator ends there with the exception of \<open>run_black\<close>: its
  last events are the two calls of that iteration, no wider margin is tried, no later
  file is processed and no linter is run. The call is outside the \<open>try\<close> block.
\<close>

theorem run_black_failure_is_fatal:
  assumes "get_common_root env srcs = Inr groot"
    and "git_get_modified_files env srcs revn groot = Inr changed_files"
    and "sort (remdups changed_files) = before @ p # after"
    and "files_loop env groot revn isort_on bargs before = (evs_before, None, b)"
    and "read_text env (groot @ p) = Inr wc"
    and "(if isort_on
          then apply_isort env wc (groot @ p) (map_of b ''config'') (map_of b ''line_length'')
          else Inr wc) = Inr ec"
    and "v = file_vars_of groot revn isort_on p wc ec"
    and "m < length (fst (retry env v b))"
    and "bm = black_args_after env v b [0 ..< m]"
    and "revision_vs_lines env groot revn p (splitlines env ec) m = Inr edited_linenums"
    and "\<not> (isort_on \<and> edited_linenums = [] \<and> ec = wc)"
    and "run_black env (groot @ p) ec bm = (Inl e, bm')"
  shows "format_edited_parts env srcs revn isort_on cmds bargs =
           (GetCommonRoot srcs # GitGetModifiedFiles srcs revn groot # evs_before
              @ ReadText (groot @ p)
              # (if isort_on
                 then [ApplyIsort wc (groot @ p) (map_of b ''config'') (map_of b ''line_length'')]
                 else [])
              @ concat (take m (fst (retry env v b)))
              @ [RevisionVsLines p (splitlines env ec) m, RunBlack (groot @ p) ec bm],
            Some e)"
proof -
  have tm: "try_margin env v bm m =
      ([RevisionVsLines p (splitlines env ec) m, RunBlack (groot @ p) ec bm], Raise e, bm')"
    using try_margin_run_black_fails [of env v m edited_linenums bm e bm'] assms(7,10-12)
    by (simp add: file_vars_of_simps edited_lines_def)
  have R: "retry_loop env v (black_args_after env v b [0 ..< m])
      (m # [Suc m ..< max_context_lines env v + 1]) =
      ([[RevisionVsLines p (splitlines env ec) m, RunBlack (groot @ p) ec bm]], Inl e, bm')"
    using retry_loop_Raise [OF tm] assms(9) by (simp del: retry_loop.simps)
  from generator_at_margin [OF assms(1-6) assms(8) [unfolded assms(7)] R [unfolded assms(7)],
      of cmds]
  show ?thesis by (simp add: assms(7))
qed

theorem run_black_failure_is_fatal_witness:
  "format_edited_parts example_env [[''d.py''], [''e.py'']] ''HEAD'' True [''lint''] [] =
     ([GetCommonRoot [[''d.py''], [''e.py'']],
       GitGetModifiedFiles [[''d.py''], [''e.py'']] ''HEAD'' [''repo''],
       ReadText [''repo'', ''d.py''],
       ApplyIsort (example_joinlines [''('']) [''repo'', ''d.py''] None None,
       RevisionVsLines [''d.py''] [''(''] 0,
       RunBlack [''repo'', ''d.py''] (example_joinlines [''('']) []],
      Some (OtherError ''InvalidInput''))"
proof -
  have h1: "get_common_root example_env [[''d.py''], [''e.py'']] = Inr [''repo'']"
    by (simp add: example_env_def)
  have h2: "git_get_modified_files example_env [[''d.py''], [''e.py'']] ''HEAD'' [''repo''] =
      Inr [[''d.py''], [''e.py'']]"
    by (simp add: example_env_def)
  have h4: "files_loop example_env [''repo''] ''HEAD'' True [] [] = ([], None, [])"
    by simp
  have h5: "read_text example_env ([''repo''] @ [''d.py'']) = Inr (example_joinlines [''(''])"
    by (simp add: example_env_def)
  have h6: "(if True
      then apply_isort example_env (example_joinlines [''('']) ([''repo''] @ [''d.py''])
             (map_of [] ''config'') (map_of [] ''line_length'')
      else Inr (example_joinlines [''(''])) = Inr (example_joinlines [''(''])"
    by code_simp
  have h7: "example_file_d True =
      file_vars_of [''repo''] ''HEAD'' True [''d.py''] (example_joinlines [''(''])
        (example_joinlines [''(''])"
    by (simp add: example_file_d_def example_file_def)
  have h8: "0 < length (fst (retry example_env (example_file_d True) []))"
    by code_simp
  have h9: "[] = black_args_after example_env (example_file_d True) [] [0 ..< 0]"
    by simp
  have h10: "revision_vs_lines example_env [''repo''] ''HEAD'' [''d.py'']
      (splitlines example_env (example_joinlines [''(''])) 0 = Inr [0]"
    by code_simp
  have h11: "\<not> (True \<and> [0::int] = [] \<and> example_joinlines [''(''] = example_joinlines [''(''])"
    by simp
  have h12: "run_black example_env ([''repo''] @ [''d.py'']) (example_joinlines [''('']) [] =
      (Inl (OtherError ''InvalidInput''), [])"
    by code_simp
  note T = run_black_failure_is_fatal [OF h1 h2 example_sort_de h4 h5 h6 h7 h8 h9 h10 h11 h12,
      of "[''lint'']"]
  show ?thesis unfolding T by code_simp
qed

lemma iteration_continues:
  assumes "m < length (fst (retry env v b))"
    and "try_margin env v (black_args_after env v b [0 ..< m]) m = (evs, Continue, b')"
  shows "m < max_context_lines env v"
    and "retry_loop env v (black_args_after env v b [0 ..< m])
           (m # [Suc m ..< max_context_lines env v + 1]) =
         (evs # fst (retry_loop env v b' [Suc m ..< max_context_lines env v + 1]),
          snd (retry_loop env v b' [Suc m ..< max_context_lines env v + 1]))"
proof -
  from retry_split(1) [OF assms(1)] have "m \<le> max_context_lines env v" .
  moreover have "m \<noteq> max_context_lines env v"
    using try_margin_at_max [of env v "black_args_after env v b [0 ..< m]"] assms(2) by auto
  ultimately show "m < max_context_lines env v" by simp
  show "retry_loop env v (black_args_after env v b [0 ..< m])
           (m # [Suc m ..< max_context_lines env v + 1]) =
         (evs # fst (retry_loop env v b' [Suc m ..< max_context_lines env v + 1]),
          snd (retry_loop env v b' [Suc m ..< max_context_lines env v + 1]))"
    by (rule retry_loop_Continue [OF assms(2)])
qed

text \<open>
  Claim C1. When the verification of the merged result raises \<open>NotEquivalentError\<close> in
  the iteration at margin \<open>m\<close> of the loop of a file of the batch: if \<open>m\<close> is below the
  maximum margin, the next call of the generator is the one for the edited line numbers
  at margin \<open>m + 1\<close>, and the generator ends or goes on as the loop over the margins from
  \<open>m + 1\<close> on makes it, so the error of margin \<open>m\<close> does not reach the caller; if \<open>m\<close> is
  the maximum margin, the generator ends there with \<open>NotEquivalentError\<close>.
\<close>

theorem retry_on_not_equivalent:
  assumes "get_common_root env srcs = Inr groot"
    and "git_get_modified_files env srcs revn groot = Inr changed_files"
    and "sort (remdups changed_files) = before @ p # after"
    and "files_loop env groot revn isort_on bargs before = (evs_before, None, b)"
    and "read_text env (groot @ p) = Inr wc"
    and "(if isort_on
          then apply_isort env wc (groot @ p) (map_of b ''config'') (map_of b ''line_length'')
          else Inr wc) = Inr ec"
    and "v = file_vars_of groot revn isort_on p wc ec"
    and "m < length (fst (retry env v b))"
    and "bm = black_args_after env v b [0 ..< m]"
    and "revision_vs_lines env groot revn p (splitlines env ec) m = Inr edited_linenums"
    and "\<not> (isort_on \<and> edited_linenums = [] \<and> ec = wc)"
    and "run_black env (groot @ p) ec bm = (Inr formatted, bm')"
    and "verify_ast_unchanged env ec (result_str env v formatted edited_linenums)
           (black_chunks env v formatted) edited_linenums = Some NotEquivalentError"
    and "up_to_m = GetCommonRoot srcs # GitGetModifiedFiles srcs revn groot # evs_before
           @ ReadText (groot @ p)
           # (if isort_on
              then [ApplyIsort wc (groot @ p) (map_of b ''config'') (map_of b ''line_length'')]
              else [])
           @ concat (take m (fst (retry env v b)))
           @ iteration_events env v bm m edited_linenums formatted"
    and "later = retry_loop env v bm' [Suc m ..< length (splitlines env ec) + 1]"
  shows "(m < length (splitlines env ec) \<longrightarrow>
            (\<exists>evs rest. fst later = (RevisionVsLines p (splitlines env ec) (Suc m) # evs) # rest)
            \<and> format_edited_parts env srcs revn isort_on cmds bargs =
                (case fst (snd later) of
                   Inl e \<Rightarrow> (up_to_m @ concat (fst later), Some e)
                 | Inr y \<Rightarrow>
                     (up_to_m @ concat (fst later) @ yield_events y
                        @ fst (run_loops env groot revn isort_on cmds changed_files
                                 (snd (snd later)) after),
                      snd (run_loops env groot revn isort_on cmds changed_files
                                 (snd (snd later)) after))))
       \<and> (m = length (splitlines env ec) \<longrightarrow>
            format_edited_parts env srcs revn isort_on cmds bargs =
              (up_to_m, Some NotEquivalentError))"
proof -
  have mx: "max_context_lines env v = length (splitlines env ec)"
    by (simp add: max_context_lines_def edited_lines_def assms(7) file_vars_of_simps)
  have tm: "try_margin env v bm m =
      (iteration_events env v bm m edited_linenums formatted,
       if m = max_context_lines env v then Raise NotEquivalentError else Continue, bm')"
    using try_margin_verified [of env v m edited_linenums bm formatted bm'] assms(7,10-13)
    by (simp add: file_vars_of_simps edited_lines_def)
  show ?thesis
  proof (intro conjI impI)
    assume lt: "m < length (splitlines env ec)"
    with tm mx have tmc: "try_margin env v (black_args_after env v b [0 ..< m]) m =
        (iteration_events env v bm m edited_linenums formatted, Continue, bm')"
      using assms(9) by simp
    have R: "retry_loop env v (black_args_after env v b [0 ..< m])
        (m # [Suc m ..< max_context_lines env v + 1]) =
        (iteration_events env v bm m edited_linenums formatted # fst later,
         fst (snd later), snd (snd later))"
      using iteration_continues(2) [OF assms(8) tmc] assms(15) mx by simp
    from lt have "[Suc m ..< length (splitlines env ec) + 1] =
        Suc m # [Suc (Suc m) ..< length (splitlines env ec) + 1]"
      by (simp add: upt_conv_Cons del: upt_Suc)
    with retry_loop_first_event [of env v bm' "Suc m"] assms(15,7)
    show "\<exists>evs rest. fst later = (RevisionVsLines p (splitlines env ec) (Suc m) # evs) # rest"
      by (simp add: file_vars_of_simps edited_lines_def del: retry_loop.simps upt_Suc)
    from generator_at_margin [OF assms(1-6) assms(8) [unfolded assms(7)] R [unfolded assms(7)],
        of cmds]
    show "format_edited_parts env srcs revn isort_on cmds bargs =
                (case fst (snd later) of
                   Inl e \<Rightarrow> (up_to_m @ concat (fst later), Some e)
                 | Inr y \<Rightarrow>
                     (up_to_m @ concat (fst later) @ yield_events y
                        @ fst (run_loops env groot revn isort_on cmds changed_files
                                 (snd (snd later)) after),
                      snd (run_loops env groot revn isort_on cmds changed_files
                                 (snd (snd later)) after)))"
      by (simp add: assms(7,14) split: sum.splits)
  next
    assume eq: "m = length (splitlines env ec)"
    with tm mx have tmr: "try_margin env v bm m =
        (iteration_events env v bm m edited_linenums formatted, Raise NotEquivalentError, bm')"
      by simp
    have R: "retry_loop env v (black_args_after env v b [0 ..< m])
        (m # [Suc m ..< max_context_lines env v + 1]) =
        ([iteration_events env v bm m edited_linenums formatted], Inl NotEquivalentError, bm')"
      using retry_loop_Raise [OF tmr] assms(9) by (simp del: retry_loop.simps)
    from generator_at_margin [OF assms(1-6) assms(8) [unfolded assms(7)] R [unfolded assms(7)],
        of cmds]
    show "format_edited_parts env srcs revn isort_on cmds bargs =
              (up_to_m, Some NotEquivalentError)"
      by (simp add: assms(7,14))
  qed
qed

theorem retry_on_not_equivalent_witness:
  "0 < length (splitlines example_env (example_joinlines [''a'', ''b'']))
   \<and> (\<exists>evs rest.
        fst (retry_loop example_env (example_file_a False) []
               [Suc 0 ..< length (splitlines example_env (example_joinlines [''a'', ''b''])) + 1])
        = (RevisionVsLines [''a.py''] (splitlines example_env (example_joinlines [''a'', ''b'']))
             (Suc 0) # evs) # rest)
   \<and> snd (format_edited_parts example_env [[''a.py'']] ''HEAD'' False [] []) = None
   \<and> 1 = length (splitlines example_env (example_joinlines [''c'']))
   \<and> snd (format_edited_parts example_env [[''c.py'']] ''HEAD'' False [] []) =
       Some NotEquivalentError"
proof -
  have a5: "read_text example_env ([''repo''] @ [''a.py'']) = Inr (example_joinlines [''a'', ''b''])"
    by (simp add: example_env_def)
  have a6: "(if False
      then apply_isort example_env (example_joinlines [''a'', ''b'']) ([''repo''] @ [''a.py''])
             (map_of [] ''config'') (map_of [] ''line_length'')
      else Inr (example_joinlines [''a'', ''b''])) = Inr (example_joinlines [''a'', ''b''])"
    by simp
  have a8: "0 < length (fst (retry example_env (example_file_a False) []))"
    by code_simp
  have a9: "[] = black_args_after example_env (example_file_a False) [] [0 ..< 0]"
    by simp
  have a10: "revision_vs_lines example_env [''repo''] ''HEAD'' [''a.py'']
      (splitlines example_env (example_joinlines [''a'', ''b''])) 0 = Inr [0]"
    by code_simp
  have a11: "\<not> (False \<and> [0::int] = [] \<and>
      example_joinlines [''a'', ''b''] = example_joinlines [''a'', ''b''])"
    by simp
  have a12: "run_black example_env ([''repo''] @ [''a.py'']) (example_joinlines [''a'', ''b'']) [] =
      (Inr [''AA'', ''BB''], [])"
    by code_simp
  have a13: "verify_ast_unchanged example_env (example_joinlines [''a'', ''b''])
      (result_str example_env (example_file_a False) [''AA'', ''BB''] [0])
      (black_chunks example_env (example_file_a False) [''AA'', ''BB'']) [0] =
      Some NotEquivalentError"
    by code_simp
  note A = retry_on_not_equivalent [OF example_root example_git example_sort_a example_no_files
      a5 a6 example_vars_a a8 a9 a10 a11 a12 a13 refl refl, of "[]"]
  have lt: "0 < length (splitlines example_env (example_joinlines [''a'', ''b'']))"
    by code_simp
  from A lt have A1: "\<exists>evs rest.
        fst (retry_loop example_env (example_file_a False) []
               [Suc 0 ..< length (splitlines example_env (example_joinlines [''a'', ''b''])) + 1])
        = (RevisionVsLines [''a.py''] (splitlines example_env (example_joinlines [''a'', ''b'']))
             (Suc 0) # evs) # rest"
    by blast
  note A2 = A [THEN conjunct1, THEN mp, OF lt, THEN conjunct2]
  have A3: "snd (format_edited_parts example_env [[''a.py'']] ''HEAD'' False [] []) = None"
    unfolding A2 by code_simp
  have c5: "read_text example_env ([''repo''] @ [''c.py'']) = Inr (example_joinlines [''c''])"
    by (simp add: example_env_def)
  have c6: "(if False
      then apply_isort example_env (example_joinlines [''c'']) ([''repo''] @ [''c.py''])
             (map_of [] ''config'') (map_of [] ''line_length'')
      else Inr (example_joinlines [''c''])) = Inr (example_joinlines [''c''])"
    by simp
  have c8: "1 < length (fst (retry example_env (example_file_c False) []))"
    by code_simp
  have c9: "[] = black_args_after example_env (example_file_c False) [] [0 ..< 1]"
    by code_simp
  have c10: "revision_vs_lines example_env [''repo''] ''HEAD'' [''c.py'']
      (splitlines example_env (example_joinlines [''c''])) 1 = Inr [0]"
    by code_simp
  have c11: "\<not> (False \<and> [0::int] = [] \<and> example_joinlines [''c''] = example_joinlines [''c''])"
    by simp
  have c12: "run_black example_env ([''repo''] @ [''c.py'']) (example_joinlines [''c'']) [] =
      (Inr [''C!''], [])"
    by code_simp
  have c13: "verify_ast_unchanged example_env (example_joinlines [''c''])
      (result_str example_env (example_file_c False) [''C!''] [0])
      (black_chunks example_env (example_file_c False) [''C!'']) [0] =
      Some NotEquivalentError"
    by code_simp
  note C = retry_on_not_equivalent [OF example_root example_git example_sort_c example_no_files
      c5 c6 example_vars_c c8 c9 c10 c11 c12 c13 refl refl, of "[]"]
  have eq: "1 = length (splitlines example_env (example_joinlines [''c'']))"
    by code_simp
  note C2 = C [THEN conjunct2, THEN mp, OF eq]
  have C3: "snd (format_edited_parts example_env [[''c.py'']] ''HEAD'' False [] []) =
       Some NotEquivalentError"
    unfolding C2 by simp
  from lt A1 A3 eq C3 show ?thesis by blast
qed

text \<open>
  Claim C4, as amended. When the verification of the merged result succeeds in an
  iteration of the loop of a file of the batch, the loop of the file ends with that
  iteration, and the generator yields \<open>(src, worktree_content, result_str, chosen_lines)\<close>
  for the file if and only if the merged result string differs from the content of the
  file as read from the worktree, before isort; when they are equal nothing is yielded
  for the file. In both cases the generator goes on with the files after it. The
  content compared is not the edited content that the reformatter and the verifier are
  given: when isort has changed the file, a merged result equal to the edited content is
  yielded.
\<close>

theorem yield_iff_differs_from_worktree:
  assumes "get_common_root env srcs = Inr groot"
    and "git_get_modified_files env srcs revn groot = Inr changed_files"
    and "sort (remdups changed_files) = before @ p # after"
    and "files_loop env groot revn isort_on bargs before = (evs_before, None, b)"
    and "read_text env (groot @ p) = Inr wc"
    and "(if isort_on
          then apply_isort env wc (groot @ p) (map_of b ''config'') (map_of b ''line_length'')
          else Inr wc) = Inr ec"
    and "v = file_vars_of groot revn isort_on p wc ec"
    and "m < length (fst (retry env v b))"
    and "bm = black_args_after env v b [0 ..< m]"
    and "revision_vs_lines env groot revn p (splitlines env ec) m = Inr edited_linenums"
    and "\<not> (isort_on \<and> edited_linenums = [] \<and> ec = wc)"
    and "run_black env (groot @ p) ec bm = (Inr formatted, bm')"
    and "verify_ast_unchanged env ec (result_str env v formatted edited_linenums)
           (black_chunks env v formatted) edited_linenums = None"
    and "up_to_m = GetCommonRoot srcs # GitGetModifiedFiles srcs revn groot # evs_before
           @ ReadText (groot @ p)
           # (if isort_on
              then [ApplyIsort wc (groot @ p) (map_of b ''config'') (map_of b ''line_length'')]
              else [])
           @ concat (take m (fst (retry env v b)))
           @ iteration_events env v bm m edited_linenums formatted"
  shows "length (fst (retry env v b)) = Suc m
       \<and> format_edited_parts env srcs revn isort_on cmds bargs =
           (up_to_m
              @ (if result_str env v formatted edited_linenums \<noteq> wc
                 then [Yield (groot @ p) wc (result_str env v formatted edited_linenums)
                         (chosen_lines env v formatted edited_linenums)]
                 else [])
              @ fst (run_loops env groot revn isort_on cmds changed_files bm' after),
            snd (run_loops env groot revn isort_on cmds changed_files bm' after))"
proof -
  have tm: "try_margin env v bm m =
      (iteration_events env v bm m edited_linenums formatted,
       Break (if result_str env v formatted edited_linenums \<noteq> wc
              then Some (groot @ p, wc, result_str env v formatted edited_linenums,
                     chosen_lines env v formatted edited_linenums)
              else None), bm')"
    using try_margin_verified [of env v m edited_linenums bm formatted bm'] assms(7,10-13)
    by (simp add: file_vars_of_simps edited_lines_def)
  have R: "retry_loop env v (black_args_after env v b [0 ..< m])
      (m # [Suc m ..< max_context_lines env v + 1]) =
      ([iteration_events env v bm m edited_linenums formatted],
       Inr (if result_str env v formatted edited_linenums \<noteq> wc
              then Some (groot @ p, wc, result_str env v formatted edited_linenums,
                     chosen_lines env v formatted edited_linenums)
              else None), bm')"
    using retry_loop_Break [OF tm] assms(9) by (simp del: retry_loop.simps)
  note len = retry_ends_at(2) [OF assms(8) R]
  from generator_at_margin [OF assms(1-6) assms(8) [unfolded assms(7)] R [unfolded assms(7)],
      of cmds]
  have "format_edited_parts env srcs revn isort_on cmds bargs =
           (up_to_m
              @ (if result_str env v formatted edited_linenums \<noteq> wc
                 then [Yield (groot @ p) wc (result_str env v formatted edited_linenums)
                         (chosen_lines env v formatted edited_linenums)]
                 else [])
              @ fst (run_loops env groot revn isort_on cmds changed_files bm' after),
            snd (run_loops env groot revn isort_on cmds changed_files bm' after))"
    by (simp add: assms(7,14))
  with len show ?thesis by simp
qed

theorem yield_iff_differs_from_worktree_witness:
  "result_str example_env (example_file_a False) [''AA'', ''BB''] [0, 1] \<noteq>
     example_joinlines [''a'', ''b'']
   \<and> length (fst (retry example_env (example_file_a False) [])) = Suc 1
   \<and> format_edited_parts example_env [[''a.py'']] ''HEAD'' False [] [] =
      (GetCommonRoot [[''a.py'']] # GitGetModifiedFiles [[''a.py'']] ''HEAD'' [''repo'']
         # ReadText [''repo'', ''a.py'']
         # iteration_events example_env (example_file_a False) [] 0 [0] [''AA'', ''BB'']
         @ iteration_events example_env (example_file_a False) [] 1 [0, 1] [''AA'', ''BB'']
         @ [Yield [''repo'', ''a.py''] (example_joinlines [''a'', ''b''])
              (example_joinlines [''AA'', ''BB'']) [''AA'', ''BB'']],
       None)"
proof -
  have a5: "read_text example_env ([''repo''] @ [''a.py'']) = Inr (example_joinlines [''a'', ''b''])"
    by (simp add: example_env_def)
  have a6: "(if False
      then apply_isort example_env (example_joinlines [''a'', ''b'']) ([''repo''] @ [''a.py''])
             (map_of [] ''config'') (map_of [] ''line_length'')
      else Inr (example_joinlines [''a'', ''b''])) = Inr (example_joinlines [''a'', ''b''])"
    by simp
  have a8: "1 < length (fst (retry example_env (example_file_a False) []))"
    by code_simp
  have a9: "[] = black_args_after example_env (example_file_a False) [] [0 ..< 1]"
    by code_simp
  have a10: "revision_vs_lines example_env [''repo''] ''HEAD'' [''a.py'']
      (splitlines example_env (example_joinlines [''a'', ''b''])) 1 = Inr [0, 1]"
    by code_simp
  have a11: "\<not> (False \<and> [0::int, 1] = [] \<and>
      example_joinlines [''a'', ''b''] = example_joinlines [''a'', ''b''])"
    by simp
  have a12: "run_black example_env ([''repo''] @ [''a.py'']) (example_joinlines [''a'', ''b'']) [] =
      (Inr [''AA'', ''BB''], [])"
    by code_simp
  have a13: "verify_ast_unchanged example_env (example_joinlines [''a'', ''b''])
      (result_str example_env (example_file_a False) [''AA'', ''BB''] [0, 1])
      (black_chunks example_env (example_file_a False) [''AA'', ''BB'']) [0, 1] = None"
    by code_simp
  note T = yield_iff_differs_from_worktree [OF example_root example_git example_sort_a
      example_no_files a5 a6 example_vars_a a8 a9 a10 a11 a12 a13 refl, of "[]"]
  have d: "result_str example_env (example_file_a False) [''AA'', ''BB''] [0, 1] \<noteq>
     example_joinlines [''a'', ''b'']"
    by code_simp
  note T1 = T [THEN conjunct1]
  note T2 = T [THEN conjunct2]
  have e: "format_edited_parts example_env [[''a.py'']] ''HEAD'' False [] [] =
      (GetCommonRoot [[''a.py'']] # GitGetModifiedFiles [[''a.py'']] ''HEAD'' [''repo'']
         # ReadText [''repo'', ''a.py'']
         # iteration_events example_env (example_file_a False) [] 0 [0] [''AA'', ''BB'']
         @ iteration_events example_env (example_file_a False) [] 1 [0, 1] [''AA'', ''BB'']
         @ [Yield [''repo'', ''a.py''] (example_joinlines [''a'', ''b''])
              (example_joinlines [''AA'', ''BB'']) [''AA'', ''BB'']],
       None)"
    unfolding T2 by code_simp
  from d T1 e show ?thesis by blast
qed

theorem yield_compares_with_worktree_counterexample:
  "enable_isort example_file_e
   \<and> edited_content example_file_e \<noteq> worktree_content example_file_e
   \<and> verify_ast_unchanged example_env (edited_content example_file_e)
       (result_str example_env example_file_e [''p'', ''q''] [0])
       (black_chunks example_env example_file_e [''p'', ''q'']) [0] = None
   \<and> result_str example_env example_file_e [''p'', ''q''] [0] = edited_content example_file_e
   \<and> format_edited_parts example_env [[''e.py'']] ''HEAD'' True [] [] =
      (GetCommonRoot [[''e.py'']] # GitGetModifiedFiles [[''e.py'']] ''HEAD'' [''repo'']
         # ReadText [''repo'', ''e.py'']
         # ApplyIsort (example_joinlines [''q'', ''p'']) [''repo'', ''e.py''] None None
         # iteration_events example_env example_file_e [] 0 [0] [''p'', ''q'']
         @ [Yield [''repo'', ''e.py''] (example_joinlines [''q'', ''p''])
              (example_joinlines [''p'', ''q'']) [''p'', ''q'']],
       None)"
  by code_simp

text \<open>
  Claim C2. The retry loop of a file is a total function of its inputs, runs at least
  one and at most \<open>max_margin + 1\<close> iterations, where \<open>max_margin\<close> is the number of lines
  of the edited content, and its last iteration ends with a \<open>break\<close> (a result, no change
  or the short cut) or with an exception, never with \<open>continue\<close>.
\<close>

theorem retry_loop_halts:
  "1 \<le> length (fst (retry env v b)) \<and>
   length (fst (retry env v b)) \<le> length (splitlines env (edited_content v)) + 1 \<and>
   fst (snd (try_margin env v
               (black_args_after env v b [0 ..< length (fst (retry env v b)) - 1])
               (length (fst (retry env v b)) - 1))) \<noteq> Continue"
proof -
  from retry_loop_from [of 0 "max_context_lines env v" env v b]
  have bounds: "1 \<le> length (fst (retry env v b))"
    "length (fst (retry env v b)) \<le> length (splitlines env (edited_content v)) + 1"
    by (simp_all add: retry_def max_context_lines_def edited_lines_def del: upt_Suc)
  define m where "m = length (fst (retry env v b)) - 1"
  with bounds have m: "m < length (fst (retry env v b))"
    and suc: "length (fst (retry env v b)) = Suc m" by simp_all
  have "fst (snd (try_margin env v (black_args_after env v b [0 ..< m]) m)) \<noteq> Continue"
  proof
    assume c: "fst (snd (try_margin env v (black_args_after env v b [0 ..< m]) m)) = Continue"
    then obtain evs b' where tm:
      "try_margin env v (black_args_after env v b [0 ..< m]) m = (evs, Continue, b')"
      by (cases "try_margin env v (black_args_after env v b [0 ..< m]) m" rule: prod_cases3) simp
    from iteration_continues [OF m tm]
    have lt: "m < max_context_lines env v"
      and R: "retry_loop env v (black_args_after env v b [0 ..< m])
           (m # [Suc m ..< max_context_lines env v + 1]) =
         (evs # fst (retry_loop env v b' [Suc m ..< max_context_lines env v + 1]),
          snd (retry_loop env v b' [Suc m ..< max_context_lines env v + 1]))"
      by simp_all
    define k where "k = length (fst (retry_loop env v (black_args_after env v b [0 ..< m])
           (m # [Suc m ..< max_context_lines env v + 1])))"
    define k' where
      "k' = length (fst (retry_loop env v b' [Suc m ..< max_context_lines env v + 1]))"
    have "k = Suc k'" unfolding k_def k'_def R by simp
    moreover from lt retry_loop_from [of "Suc m" "max_context_lines env v" env v b']
    have "1 \<le> k'" unfolding k'_def by simp
    moreover have "Suc m = m + k"
      unfolding k_def by (rule trans [OF suc [symmetric] retry_length_split [OF m]])
    ultimately show False by arith
  qed
  with bounds show ?thesis by (simp add: m_def)
qed



text \<open>
  Claim C3, as amended. When isort is enabled, has left the content as it is in the
  worktree, and no line is edited at margin 0, the loop ends in its first iteration with
  no change: \<open>run_black\<close> is not called and no merged result is built. Without isort
  the short cut is not taken: the counterexample is a file with no edited line that is
  reformatted, merged and verified.
\<close>

theorem unchanged_file_short_circuit:
  assumes "enable_isort v"
    and "revision_vs_lines env (git_root v) (revision v) (path_in_repo v)
           (edited_lines env v) 0 = Inr []"
    and "edited_content v = worktree_content v"
  shows "retry env v b =
           ([[RevisionVsLines (path_in_repo v) (edited_lines env v) 0]], Inr None, b)"
  using assms by (simp add: retry_def try_margin_def upt_rec)

theorem unchanged_file_short_circuit_witness:
  "enable_isort (example_file_b True)
   \<and> edited_content (example_file_b True) = worktree_content (example_file_b True)
   \<and> retry example_env (example_file_b True) [] =
       ([[RevisionVsLines [''b.py''] [''b''] 0]], Inr None, [])"
proof -
  have h1: "enable_isort (example_file_b True)"
    by code_simp
  have h2: "revision_vs_lines example_env (git_root (example_file_b True))
      (revision (example_file_b True)) (path_in_repo (example_file_b True))
      (edited_lines example_env (example_file_b True)) 0 = Inr []"
    by code_simp
  have h3: "edited_content (example_file_b True) = worktree_content (example_file_b True)"
    by code_simp
  note T = unchanged_file_short_circuit [OF h1 h2 h3, of "[]"]
  have "retry example_env (example_file_b True) [] =
       ([[RevisionVsLines [''b.py''] [''b''] 0]], Inr None, [])"
    unfolding T by code_simp
  with h1 h3 show ?thesis by blast
qed

theorem unchanged_file_without_isort_counterexample:
  "revision_vs_lines example_env (git_root (example_file_b False))
      (revision (example_file_b False)) (path_in_repo (example_file_b False))
      (edited_lines example_env (example_file_b False)) 0 = Inr []
   \<and> edited_content (example_file_b False) = worktree_content (example_file_b False)
   \<and> fst (retry example_env (example_file_b False) []) =
       [[RevisionVsLines [''b.py''] [''b''] 0,
         RunBlack [''repo'', ''b.py''] (example_joinlines [''b'']) [],
         DiffAndGetOpcodes [''b''] [''BB''],
         OpcodesToChunks [(''replace'', 0, 1, 0, 1)] [''b''] [''BB''],
         ChooseLines [(0, [''b''], [''BB''])] [],
         Joinlines [''b''],
         VerifyAstUnchanged (example_joinlines [''b'']) (example_joinlines [''b''])
           [(0, [''b''], [''BB''])] []]]
   \<and> retry example_env (example_file_b False) [] \<noteq>
       ([[RevisionVsLines [''b.py''] [''b''] 0]], Inr None, [])"
  by code_simp

text \<open>
  Claim C5, as amended. An exception raised while one file is processed ends the
  generator with that exception: the files before it in sorted order have been processed
  and what they yield has been handed to the consumer, the files after it are not
  processed and no linter is run.
\<close>

theorem failure_aborts_remaining_files:
  assumes "get_common_root env srcs = Inr groot"
    and "git_get_modified_files env srcs revn groot = Inr changed_files"
    and "sort (remdups changed_files) = before @ p # after"
    and "files_loop env groot revn isort_on bargs before = (evs_before, None, b)"
    and "process_file env groot revn isort_on b p = (evs, Inl e, b')"
  shows "format_edited_parts env srcs revn isort_on linter_cmdlines bargs =
           (GetCommonRoot srcs # GitGetModifiedFiles srcs revn groot
              # fst (files_loop env groot revn isort_on bargs (before @ [p])),
            Some e)
       \<and> fst (files_loop env groot revn isort_on bargs (before @ [p])) = evs_before @ evs"
proof -
  from files_loop_append [OF assms(4), of "[p]"] files_loop_Inl [OF assms(5), of "[]"]
  have fl: "fst (files_loop env groot revn isort_on bargs (before @ [p])) = evs_before @ evs"
    by (simp del: files_loop.simps)
  from format_edited_parts_loops [OF assms(1,2), of isort_on linter_cmdlines bargs]
    run_loops_append [OF assms(4), of linter_cmdlines changed_files "p # after"]
    run_loops_Inl [OF assms(5), of linter_cmdlines changed_files after] assms(3) fl
  show ?thesis by simp
qed

theorem failure_aborts_remaining_files_witness:
  "process_file example_env [''repo''] ''HEAD'' True [] [''c.py''] =
     (fst (process_file example_env [''repo''] ''HEAD'' True [] [''c.py'']),
      Inl NotEquivalentError, [])
   \<and> format_edited_parts example_env [[''e.py''], [''c.py''], [''a.py'']] ''HEAD'' True
       [''lint''] [] =
     (GetCommonRoot [[''e.py''], [''c.py''], [''a.py'']]
        # GitGetModifiedFiles [[''e.py''], [''c.py''], [''a.py'']] ''HEAD'' [''repo'']
        # fst (files_loop example_env [''repo''] ''HEAD'' True [] ([[''a.py'']] @ [[''c.py'']])),
      Some NotEquivalentError)"
proof -
  have h4: "files_loop example_env [''repo''] ''HEAD'' True [] [[''a.py'']] =
      (fst (files_loop example_env [''repo''] ''HEAD'' True [] [[''a.py'']]), None, [])"
    by code_simp
  have h5: "process_file example_env [''repo''] ''HEAD'' True [] [''c.py''] =
     (fst (process_file example_env [''repo''] ''HEAD'' True [] [''c.py'']),
      Inl NotEquivalentError, [])"
    by code_simp
  note T = failure_aborts_remaining_files [OF example_root example_git example_sort_eca h4 h5,
      of "[''lint'']", THEN conjunct1]
  from h5 T show ?thesis by blast
qed

theorem failure_is_file_scoped_counterexample:
  "snd (format_edited_parts example_env [[''e.py''], [''c.py''], [''a.py'']] ''HEAD'' True
          [''lint''] []) = Some NotEquivalentError
   \<and> ReadText [''repo'', ''c.py'']
       \<in> set (fst (format_edited_parts example_env [[''e.py''], [''c.py''], [''a.py'']] ''HEAD''
                     True [''lint''] []))
   \<and> ReadText [''repo'', ''e.py'']
       \<notin> set (fst (format_edited_parts example_env [[''e.py''], [''c.py''], [''a.py'']] ''HEAD''
                     True [''lint''] []))
   \<and> fst (snd (process_file example_env [''repo''] ''HEAD'' True [] [''e.py''])) =
       Inr (Some ([''repo'', ''e.py''], example_joinlines [''q'', ''p''],
                   example_joinlines [''p'', ''q''], [''p'', ''q'']))"
  by code_simp

section \<open>The options of Black across the calls\<close>

text \<open>
  In every call of \<open>run_black\<close> in the loop of a file, the path and the content are
  those of the file, set before the loop.
\<close>

lemma run_black_same_file_and_content:
  "ev \<in> set (concat (fst (retry env v b))) \<Longrightarrow> ev = RunBlack s c d \<Longrightarrow>
     s = src v \<and> c = edited_content v"
proof -
  assume ev: "ev \<in> set (concat (fst (retry env v b)))" and eq: "ev = RunBlack s c d"
  from ev obtain it where "it \<in> set (fst (retry env v b))" and "ev \<in> set it" by auto
  then obtain m b0 where "ev \<in> set (fst (try_margin env v b0 m))"
    unfolding retry_def using retry_loop_iterations by blast
  with eq show ?thesis
    by (auto simp: try_margin_def iteration_events_def
        split: sum.splits if_splits option.splits prod.splits)
qed

text \<open>
  Claim C7. The claim is that the reformatter is invoked with the same input in every
  iteration and so returns the same lines. The path and the edited content are the same,
  but the options are one dictionary shared by all the calls, and a reformatter that
  takes \<open>config\<close> out of the dictionary it is given is called without it from the second
  iteration on and then reformats as without a configuration. The run of the example with
  \<open>--config black.cfg\<close>: the first call has the configuration and gives \<open>A\<close>, \<open>B\<close>, the
  second call has none and gives \<open>AA\<close>, \<open>BB\<close>.
\<close>

theorem run_black_options_change_example:
  "make_black_args example_args_config = [(''config'', PyStr ''black.cfg'')]
   \<and> fst (retry example_env (example_file_a False) [(''config'', PyStr ''black.cfg'')]) =
       [iteration_events example_env (example_file_a False) [(''config'', PyStr ''black.cfg'')]
          0 [0] [''A'', ''B''],
        iteration_events example_env (example_file_a False) [] 1 [0, 1] [''AA'', ''BB'']]
   \<and> RunBlack [''repo'', ''a.py''] (example_joinlines [''a'', ''b''])
        [(''config'', PyStr ''black.cfg'')]
       \<in> set (fst (main example_env example_args_config))
   \<and> RunBlack [''repo'', ''a.py''] (example_joinlines [''a'', ''b'']) []
       \<in> set (fst (main example_env example_args_config))
   \<and> DiffAndGetOpcodes [''a'', ''b''] [''A'', ''B'']
       \<in> set (fst (main example_env example_args_config))
   \<and> DiffAndGetOpcodes [''a'', ''b''] [''AA'', ''BB'']
       \<in> set (fst (main example_env example_args_config))"
  by code_simp

section \<open>\<open>main\<close>\<close>

lemma try_margin_no_modify:
  "ev \<in> set (fst (try_margin env v b m)) \<Longrightarrow> \<not> is_modify_file ev"
  by (auto simp: try_margin_def iteration_events_def
      split: sum.splits if_splits option.splits prod.splits)

lemma retry_no_modify:
  "ev \<in> set (concat (fst (retry env v b))) \<Longrightarrow> \<not> is_modify_file ev"
  unfolding retry_def using retry_loop_iterations try_margin_no_modify by fastforce

lemma process_file_no_modify:
  "ev \<in> set (fst (process_file env groot revn isort_on b p)) \<Longrightarrow> \<not> is_modify_file ev"
  using retry_no_modify [of ev env]
  by (auto simp: process_file_def case_prod_beta split: sum.splits if_splits)

lemma yield_events_no_modify: "ev \<in> set (yield_events y) \<Longrightarrow> \<not> is_modify_file ev"
  by (cases y) auto

lemma files_loop_no_modify:
  "ev \<in> set (fst (files_loop env groot revn isort_on b ps)) \<Longrightarrow> \<not> is_modify_file ev"
proof (induction ps arbitrary: b)
  case Nil
  then show ?case by simp
next
  case (Cons p ps)
  obtain evs r b' where pp: "process_file env groot revn isort_on b p = (evs, r, b')"
    by (cases "process_file env groot revn isort_on b p" rule: prod_cases3)
  then have evs: "\<And>x. x \<in> set evs \<Longrightarrow> \<not> is_modify_file x"
    using process_file_no_modify [of _ env groot revn isort_on b p] by simp
  show ?case
  proof (cases r)
    case (Inl e)
    with pp Cons.prems evs show ?thesis by (simp add: files_loop_Inl del: files_loop.simps)
  next
    case (Inr y)
    from Cons.prems have "ev \<in> set evs \<or> ev \<in> set (yield_events y)
        \<or> ev \<in> set (fst (files_loop env groot revn isort_on b' ps))"
      by (simp add: files_loop_Inr [OF pp [unfolded Inr]] del: files_loop.simps)
    with Cons.IH [of b'] evs yield_events_no_modify [of ev y] show ?thesis by blast
  qed
qed

lemma linters_loop_no_modify:
  "ev \<in> set (fst (linters_loop env groot changed_files revn cmds)) \<Longrightarrow> \<not> is_modify_file ev"
  by (induction cmds) (auto simp: case_prod_beta split: option.splits)

lemma generator_no_modify:
  "ev \<in> set (fst (format_edited_parts env srcs revn isort_on cmds bargs)) \<Longrightarrow>
     \<not> is_modify_file ev"
  using files_loop_no_modify [of ev env] linters_loop_no_modify [of ev env]
  by (auto simp: format_edited_parts_def run_loops_def case_prod_beta
      simp del: files_loop.simps split: sum.splits option.splits)

lemma delete_comments_no_modify:
  "ev \<in> set (fst (delete_comments env urls)) \<Longrightarrow> \<not> is_modify_file ev"
  by (induction urls) (auto simp: case_prod_beta split: option.splits)

lemma post_gh_suggestion_no_modify:
  "ev \<in> set (fst (post_gh_suggestion env p old_content new_lines)) \<Longrightarrow> \<not> is_modify_file ev"
  using delete_comments_no_modify [of ev env]
  by (auto simp: post_gh_suggestion_def case_prod_beta
      split: sum.splits option.splits if_splits)

lemma on_yield_no_modify:
  "arg_check a \<or> arg_diff a \<Longrightarrow>
     ev \<in> set (fst (on_yield env a p old_content new_content new_lines)) \<Longrightarrow>
     \<not> is_modify_file ev"
  using post_gh_suggestion_no_modify [of ev env]
  by (auto simp: on_yield_def case_prod_beta split: sum.splits option.splits if_splits)

lemma main_loop_Yield_None:
  "snd (on_yield env a p old_content new_content new_lines) = None \<Longrightarrow>
     main_loop env a (Yield p old_content new_content new_lines # evs) c =
       (Yield p old_content new_content new_lines
          # fst (on_yield env a p old_content new_content new_lines)
          @ fst (main_loop env a evs True),
        snd (main_loop env a evs True))"
  by (cases "on_yield env a p old_content new_content new_lines") (simp add: case_prod_beta)

lemma main_loop_Yield_Some:
  "snd (on_yield env a p old_content new_content new_lines) = Some e \<Longrightarrow>
     main_loop env a (Yield p old_content new_content new_lines # evs) c =
       (Yield p old_content new_content new_lines
          # fst (on_yield env a p old_content new_content new_lines), Inl e)"
  by (cases "on_yield env a p old_content new_content new_lines") simp

lemma main_loop_other:
  "\<not> is_yield ev \<Longrightarrow>
     main_loop env a (ev # evs) c = (ev # fst (main_loop env a evs c), snd (main_loop env a evs c))"
  by (cases ev) (simp_all add: case_prod_beta)

lemma is_yield_cases:
  "is_yield ev \<Longrightarrow>
     \<exists>p old_content new_content new_lines. ev = Yield p old_content new_content new_lines"
  by (cases ev) simp_all

lemma main_loop_no_modify:
  "arg_check a \<or> arg_diff a \<Longrightarrow> \<forall>x \<in> set gen. \<not> is_modify_file x \<Longrightarrow>
     ev \<in> set (fst (main_loop env a gen c)) \<Longrightarrow> \<not> is_modify_file ev"
proof (induction gen arbitrary: c)
  case Nil
  then show ?case by simp
next
  case (Cons x gen)
  show ?case
  proof (cases "is_yield x")
    case False
    with Cons show ?thesis by (auto simp: main_loop_other simp del: main_loop.simps)
  next
    case True
    then obtain p old_content new_content new_lines
      where x: "x = Yield p old_content new_content new_lines"
      using is_yield_cases by blast
    note oy = on_yield_no_modify [OF Cons.prems(1), of ev env p old_content new_content new_lines]
    show ?thesis
    proof (cases "snd (on_yield env a p old_content new_content new_lines)")
      case None
      with Cons x oy show ?thesis
        by (auto simp: main_loop_Yield_None simp del: main_loop.simps)
    next
      case (Some e)
      with Cons.prems x oy show ?thesis
        by (auto simp: main_loop_Yield_Some simp del: main_loop.simps)
    qed
  qed
qed

lemma main_loop_returns:
  "snd (main_loop env a gen c) = Inr c' \<Longrightarrow> c' = (c \<or> (\<exists>ev \<in> set gen. is_yield ev))"
proof (induction gen arbitrary: c)
  case Nil
  then show ?case by simp
next
  case (Cons ev evs)
  show ?case
  proof (cases "is_yield ev")
    case False
    with Cons show ?thesis by (simp add: main_loop_other del: main_loop.simps)
  next
    case True
    then obtain p old_content new_content new_lines
      where ev: "ev = Yield p old_content new_content new_lines"
      using is_yield_cases by blast
    show ?thesis
    proof (cases "snd (on_yield env a p old_content new_content new_lines)")
      case None
      with Cons.prems ev have "snd (main_loop env a evs True) = Inr c'"
        by (simp add: main_loop_Yield_None del: main_loop.simps)
      from Cons.IH [OF this] True show ?thesis by simp
    next
      case (Some e)
      with Cons.prems ev show ?thesis by (simp add: main_loop_Yield_Some del: main_loop.simps)
    qed
  qed
qed

lemma main_loop_total:
  "\<forall>p old_content new_content new_lines.
      Yield p old_content new_content new_lines \<in> set gen \<longrightarrow>
      snd (on_yield env a p old_content new_content new_lines) = None \<Longrightarrow>
   snd (main_loop env a gen c) = Inr (c \<or> (\<exists>ev \<in> set gen. is_yield ev))"
proof (induction gen arbitrary: c)
  case Nil
  then show ?case by simp
next
  case (Cons ev evs)
  then have IH: "\<And>c. snd (main_loop env a evs c) = Inr (c \<or> (\<exists>ev \<in> set evs. is_yield ev))"
    by simp
  show ?case
  proof (cases "is_yield ev")
    case False
    with IH show ?thesis by (simp add: main_loop_other del: main_loop.simps)
  next
    case True
    then obtain p old_content new_content new_lines
      where ev: "ev = Yield p old_content new_content new_lines"
      using is_yield_cases by blast
    with Cons.prems have "snd (on_yield env a p old_content new_content new_lines) = None"
      by simp
    with ev IH True show ?thesis by (simp add: main_loop_Yield_None del: main_loop.simps)
  qed
qed

lemma example_main_check:
  "main example_env example_args_check =
     (GetCommonRoot [[''a.py'']] # GitGetModifiedFiles [[''a.py'']] ''HEAD'' [''repo'']
      # ReadText [''repo'', ''a.py'']
      # iteration_events example_env (example_file_a False) [] 0 [0] [''AA'', ''BB'']
      @ iteration_events example_env (example_file_a False) [] 1 [0, 1] [''AA'', ''BB'']
      @ [Yield [''repo'', ''a.py''] (example_joinlines [''a'', ''b''])
           (example_joinlines [''AA'', ''BB'']) [''AA'', ''BB'']],
      Inr 1)"
  by code_simp

lemma example_main_diff:
  "main example_env example_args_diff =
     (GetCommonRoot [[''a.py'']] # GitGetModifiedFiles [[''a.py'']] ''HEAD'' [''repo'']
      # ReadText [''repo'', ''a.py'']
      # iteration_events example_env (example_file_a False) [] 0 [0] [''AA'', ''BB'']
      @ iteration_events example_env (example_file_a False) [] 1 [0, 1] [''AA'', ''BB'']
      @ [Yield [''repo'', ''a.py''] (example_joinlines [''a'', ''b''])
           (example_joinlines [''AA'', ''BB'']) [''AA'', ''BB''],
         RelativeToCwd [''repo'', ''a.py''],
         PostGhSuggestion ''a.py'' (example_joinlines [''a'', ''b'']) [''AA'', ''BB''],
         ImportRequests, ReadGithubEvent],
      Inl UnboundLocalError)"
  by code_simp

lemma example_generator_check:
  "generator example_env example_args_check =
     (GetCommonRoot [[''a.py'']] # GitGetModifiedFiles [[''a.py'']] ''HEAD'' [''repo'']
      # ReadText [''repo'', ''a.py'']
      # iteration_events example_env (example_file_a False) [] 0 [0] [''AA'', ''BB'']
      @ iteration_events example_env (example_file_a False) [] 1 [0, 1] [''AA'', ''BB'']
      @ [Yield [''repo'', ''a.py''] (example_joinlines [''a'', ''b''])
           (example_joinlines [''AA'', ''BB'']) [''AA'', ''BB'']],
      None)"
  by code_simp

text \<open>
  Claim C10. When \<open>--check\<close> or \<open>--diff\<close> is given, no event of the run of \<open>main\<close> is a
  call of \<open>modify_file\<close>, however the run ends: a file is written only when both options
  are absent.
\<close>

theorem no_write_with_check_or_diff:
  assumes "arg_check a \<or> arg_diff a"
  shows "\<forall>ev \<in> set (fst (main env a)). \<not> is_modify_file ev"
proof
  fix ev
  assume ev: "ev \<in> set (fst (main env a))"
  have gen: "\<forall>x \<in> set (fst (generator env a)). \<not> is_modify_file x"
    unfolding generator_def using generator_no_modify by blast
  from ev main_loop_no_modify [OF assms gen, of ev env False]
  show "\<not> is_modify_file ev"
    by (auto simp: main_def split: if_splits prod.splits sum.splits option.splits)
qed

theorem no_write_with_check_or_diff_witness:
  "arg_check example_args_check
   \<and> Yield [''repo'', ''a.py''] (example_joinlines [''a'', ''b''])
        (example_joinlines [''AA'', ''BB'']) [''AA'', ''BB'']
       \<in> set (fst (main example_env example_args_check))
   \<and> ModifyFile [''repo'', ''a.py''] (example_joinlines [''AA'', ''BB''])
       \<notin> set (fst (main example_env example_args_check))
   \<and> arg_diff example_args_diff
   \<and> PostGhSuggestion ''a.py'' (example_joinlines [''a'', ''b'']) [''AA'', ''BB'']
       \<in> set (fst (main example_env example_args_diff))
   \<and> ModifyFile [''repo'', ''a.py''] (example_joinlines [''AA'', ''BB''])
       \<notin> set (fst (main example_env example_args_diff))"
proof -
  have c: "arg_check example_args_check \<or> arg_diff example_args_check"
    by (simp add: example_args_defs)
  have d: "arg_check example_args_diff \<or> arg_diff example_args_diff"
    by (simp add: example_args_defs)
  have m: "is_modify_file (ModifyFile [''repo'', ''a.py''] (example_joinlines [''AA'', ''BB''])
      :: example_chunk event)"
    by simp
  from no_write_with_check_or_diff [OF c, of example_env] m
  have 1: "ModifyFile [''repo'', ''a.py''] (example_joinlines [''AA'', ''BB''])
       \<notin> set (fst (main example_env example_args_check))"
    by blast
  from no_write_with_check_or_diff [OF d, of example_env] m
  have 2: "ModifyFile [''repo'', ''a.py''] (example_joinlines [''AA'', ''BB''])
       \<notin> set (fst (main example_env example_args_diff))"
    by blast
  have 3: "Yield [''repo'', ''a.py''] (example_joinlines [''a'', ''b''])
        (example_joinlines [''AA'', ''BB'']) [''AA'', ''BB'']
       \<in> set (fst (main example_env example_args_check))"
    by (simp add: example_main_check)
  have 4: "PostGhSuggestion ''a.py'' (example_joinlines [''a'', ''b'']) [''AA'', ''BB'']
       \<in> set (fst (main example_env example_args_diff))"
    by (simp add: example_main_diff)
  have 5: "arg_check example_args_check \<and> arg_diff example_args_diff"
    by (simp add: example_args_defs)
  from 1 2 3 4 5 show ?thesis by blast
qed

text \<open>
  Claim C9, as amended. Whenever \<open>main\<close> returns, it returns 1 if \<open>--check\<close> was given and
  the generator yielded at least one file, and 0 otherwise. It does return when isort is
  installed or not asked for, the generator ends without an exception and the body of
  the loop raises for none of the yielded files. Otherwise the run ends with an exception
  and \<open>main\<close> returns nothing: the counterexample is a run with \<open>--check\<close> in which one
  file is yielded and the next one fails, and a run without \<open>--check\<close> that exits with
  status 1 because isort is missing.
\<close>

theorem main_return_value:
  "(\<forall>r. snd (main env a) = Inr r \<longrightarrow>
      r = (if arg_check a \<and> (\<exists>ev \<in> set (fst (generator env a)). is_yield ev) then 1 else 0))
   \<and> ((arg_isort a \<longrightarrow> isort_available env)
      \<and> snd (generator env a) = None
      \<and> (\<forall>p old_content new_content new_lines.
            Yield p old_content new_content new_lines \<in> set (fst (generator env a)) \<longrightarrow>
            snd (on_yield env a p old_content new_content new_lines) = None)
      \<longrightarrow> snd (main env a) =
            Inr (if arg_check a \<and> (\<exists>ev \<in> set (fst (generator env a)). is_yield ev) then 1 else 0))"
proof (intro conjI allI impI)
  fix r
  assume "snd (main env a) = Inr r"
  then show "r = (if arg_check a \<and> (\<exists>ev \<in> set (fst (generator env a)). is_yield ev) then 1 else 0)"
    using main_loop_returns [of env a "fst (generator env a)" False]
    by (auto simp: main_def case_prod_beta split: if_splits sum.splits option.splits)
next
  assume h: "(arg_isort a \<longrightarrow> isort_available env)
      \<and> snd (generator env a) = None
      \<and> (\<forall>p old_content new_content new_lines.
            Yield p old_content new_content new_lines \<in> set (fst (generator env a)) \<longrightarrow>
            snd (on_yield env a p old_content new_content new_lines) = None)"
  then have "snd (main_loop env a (fst (generator env a)) False) =
      Inr (False \<or> (\<exists>ev \<in> set (fst (generator env a)). is_yield ev))"
    using main_loop_total by blast
  with h show "snd (main env a) =
      Inr (if arg_check a \<and> (\<exists>ev \<in> set (fst (generator env a)). is_yield ev) then 1 else 0)"
    by (auto simp: main_def case_prod_beta split: sum.splits option.splits)
qed

theorem main_return_value_witness:
  "arg_check example_args_check
   \<and> snd (generator example_env example_args_check) = None
   \<and> (\<exists>ev \<in> set (fst (generator example_env example_args_check)). is_yield ev)
   \<and> snd (main example_env example_args_check) = Inr 1"
proof -
  have h1: "arg_isort example_args_check \<longrightarrow> isort_available example_env"
    by (simp add: example_args_defs)
  have h2: "snd (generator example_env example_args_check) = None"
    by (simp add: example_generator_check)
  have h3: "\<forall>p old_content new_content new_lines.
      Yield p old_content new_content new_lines
        \<in> set (fst (generator example_env example_args_check)) \<longrightarrow>
      snd (on_yield example_env example_args_check p old_content new_content new_lines) = None"
    by (simp add: example_generator_check iteration_events_def on_yield_def example_args_defs)
  have y: "\<exists>ev \<in> set (fst (generator example_env example_args_check)). is_yield ev"
    by (simp add: example_generator_check)
  have c: "arg_check example_args_check"
    by (simp add: example_args_defs)
  from main_return_value [of example_env example_args_check, THEN conjunct2] h1 h2 h3
  have "snd (main example_env example_args_check) =
      Inr (if arg_check example_args_check \<and>
              (\<exists>ev \<in> set (fst (generator example_env example_args_check)). is_yield ev)
           then 1 else 0)"
    by blast
  with y c have "snd (main example_env example_args_check) = Inr 1" by simp
  with c h2 y show ?thesis by blast
qed

theorem main_return_value_counterexample:
  "arg_check example_args_fatal
   \<and> (\<exists>ev \<in> set (fst (generator example_env example_args_fatal)). is_yield ev)
   \<and> snd (main example_env example_args_fatal) = Inl NotEquivalentError
   \<and> \<not> arg_check example_args_isort
   \<and> main (example_env\<lparr>isort_available := False\<rparr>) example_args_isort = ([], Inl (SystemExit 1))"
  by code_simp

end
